theory Spec2Isabelle
  imports Main
begin

section \<open>EcoFinds backends: authentication, ownership and checkout\<close>

text \<open>
  The file \<^verbatim>\<open>BACKEND/server.js\<close> holds two programs one after the other: an Express/MySQL
  server in JavaScript (lines 1-243) and a Flask/PostgreSQL server in Python (lines
  245-440). No interpreter takes the file as a whole; each program is embedded on its own,
  as if it were the file, with its own datastore state.

  What is outside the repository is a parameter of the model:
  \<^item> the JWT libraries (jsonwebtoken, PyJWT) and the password hashers (bcryptjs, passlib)
    are records of functions; nothing is assumed about them except where a theorem says so;
  \<^item> the SQL operators whose result depends on the server's collation or coercion rules
    (MySQL's text equality, \<^verbatim>\<open>LIKE\<close>, the comparison of an integer column with a text
    parameter) are functions of the same records;
  \<^item> a datastore call that fails for a reason outside the tables (lost connection, a
    refused statement) is a fault flag of the handler.

  The SQL statements themselves are in the source and are embedded as operations on lists
  of rows. JSON request fields are strings (a number is carried as its decimal text).
\<close>

subsection \<open>JSON values, replies, exceptions\<close>

datatype jv = JNull | JNum nat | JStr string | JArr "jv list" | JObj "(string \<times> jv) list"

text \<open>Every field name that occurs in a JSON value, at any depth.\<close>

primrec keys :: "jv \<Rightarrow> string list" where
  "keys JNull = []"
| "keys (JNum n) = []"
| "keys (JStr s) = []"
| "keys (JArr vs) = concat (map keys vs)"
| "keys (JObj fs) = concat (map (\<lambda>f. fst f # snd f) (map (map_prod id keys) fs))"

text \<open>
  The classes of \<^verbatim>\<open>psycopg2.Error\<close> that the model raises, with what the server reports
  in them: the key column and the value of a unique violation, the column and the values
  of the failing row of a not-null violation.
\<close>

datatype pg_error =
    UniqueViolation string string
  | NotNullViolation string "string list"
  | DataError
  | OperationalError

datatype exn =
    ReferenceError string
  | TypeError
  | KeyError string
  | IndexError
  | AttributeError string
  | ValueError
  | Psycopg2Error pg_error

text \<open>
  What a request ends in: a JSON reply with its status, or an exception that no handler of
  the program catches. Flask turns the latter into a 500 page of its own; in Express an
  exception thrown inside a datastore or hasher callback reaches no response at all.
\<close>

datatype outcome = Reply nat jv | Uncaught exn

text \<open>The status a client of the Flask server sees; field names of a JSON reply.\<close>

fun status :: "outcome \<Rightarrow> nat" where
  "status (Reply s b) = s"
| "status (Uncaught e) = 500"

fun body_keys :: "outcome \<Rightarrow> string list" where
  "body_keys (Reply s b) = keys b"
| "body_keys (Uncaught e) = []"

definition error_body :: "string \<Rightarrow> jv" where
  "error_body m = JObj [(''error'', JStr m)]"

definition message_body :: "string \<Rightarrow> jv" where
  "message_body m = JObj [(''message'', JStr m)]"

definition opt_str :: "string option \<Rightarrow> jv" where
  "opt_str v = (case v of None \<Rightarrow> JNull | Some s \<Rightarrow> JStr s)"

definition opt_num :: "nat option \<Rightarrow> jv" where
  "opt_num v = (case v of None \<Rightarrow> JNull | Some n \<Rightarrow> JNum n)"

subsection \<open>Strings\<close>

text \<open>
  \<^verbatim>\<open>s.split(" ")\<close> with a one-character separator, the same in JavaScript and Python:
  the empty string gives one empty piece, adjacent separators give empty pieces.
\<close>

fun split :: "char \<Rightarrow> string \<Rightarrow> string list" where
  "split c [] = [[]]"
| "split c (x # xs) =
     (if x = c then [] # split c xs
      else (case split c xs of [] \<Rightarrow> [[x]] | w # ws \<Rightarrow> (x # w) # ws))"

text \<open>\<^verbatim>\<open>xs[i]\<close> as JavaScript reads it: undefined out of range.\<close>

definition index :: "'a list \<Rightarrow> nat \<Rightarrow> 'a option" where
  "index xs i = (if i < length xs then Some (xs ! i) else None)"

text \<open>\<^verbatim>\<open>!v\<close> / \<^verbatim>\<open>not v\<close> on a request field: a missing field and the empty string.\<close>

definition falsy :: "string option \<Rightarrow> bool" where
  "falsy v = (v = None \<or> v = Some [])"

definition startswith :: "string \<Rightarrow> string \<Rightarrow> bool" where
  "startswith s p = (take (length p) s = p)"

text \<open>\<^verbatim>\<open>n.toString()\<close> of a non-negative integer.\<close>

definition digit :: "nat \<Rightarrow> char" where
  "digit d = ''0123456789'' ! d"

function toString :: "nat \<Rightarrow> string" where
  "toString n = (if n < 10 then [digit n] else toString (n div 10) @ [digit (n mod 10)])"
  by pat_completeness auto
termination
  by (relation "measure id") auto

declare toString.simps [simp del]

definition truthy :: "string option \<Rightarrow> string option" where
  "truthy v = (case v of Some (c # cs) \<Rightarrow> Some (c # cs) | _ \<Rightarrow> None)"

section \<open>The Express server\<close>

subsection \<open>Libraries and datastore\<close>

datatype jwt_error = Malformed | BadSignature | Expired

text \<open>The claims of a jsonwebtoken payload that the program writes or reads.\<close>

record js_payload =
  jid :: "nat option"
  jemail :: "string option"
  jexp :: "nat option"

text \<open>
  \<^verbatim>\<open>jwt.sign(payload, secret, {expiresIn})\<close> with the lifetime in seconds and the clock;
  \<^verbatim>\<open>jwt.verify(token, secret)\<close> with the clock, returning the payload or throwing;
  \<^verbatim>\<open>bcrypt.hash(password, rounds)\<close> with the salt it draws, and \<^verbatim>\<open>bcrypt.compare\<close>,
  whose callbacks receive an error (\<open>None\<close>) or a result; MySQL's \<^verbatim>\<open>LIKE\<close> (column value, pattern) and its comparison of an integer
  column with a text parameter.
\<close>

record express_lib =
  jwt_sign :: "js_payload \<Rightarrow> string \<Rightarrow> nat \<Rightarrow> nat \<Rightarrow> string"
  jwt_verify :: "string \<Rightarrow> string \<Rightarrow> nat \<Rightarrow> jwt_error + js_payload"
  bcryptjs_hash :: "string \<Rightarrow> nat \<Rightarrow> nat \<Rightarrow> string option"
  bcryptjs_compare :: "string \<Rightarrow> string \<Rightarrow> bool option"
  sql_text_eq :: "string \<Rightarrow> string \<Rightarrow> bool"
  sql_like :: "string \<Rightarrow> string \<Rightarrow> bool"
  sql_int_eq :: "nat \<Rightarrow> string \<Rightarrow> bool"

text \<open>The two tables of \<^verbatim>\<open>connectToDatabase\<close>, each with its AUTO\_INCREMENT counter.\<close>

record my_user =
  mu_id :: nat
  mu_email :: string
  mu_password :: string
  mu_username :: "string option"
  mu_member_since :: nat

record my_product =
  mp_id :: nat
  mp_title :: string
  mp_description :: "string option"
  mp_category :: "string option"
  mp_price :: string
  mp_image_url :: "string option"
  mp_user_id :: "nat option"

record my_db =
  my_users :: "my_user list"
  my_users_auto :: nat
  my_products :: "my_product list"
  my_products_auto :: nat

record request =
  headers_authorization :: "string option"
  body :: "string \<rightharpoonup> string"
  query :: "string \<rightharpoonup> string"
  params :: "string \<rightharpoonup> string"
  user :: "js_payload option"

text \<open>
  The identifier \<^verbatim>\<open>JWT_SECRET\<close> is read at lines 85 and 145 and declared nowhere in the
  Express program: it has no binding, and evaluating it throws a ReferenceError.
\<close>

definition JWT_SECRET_express :: "string option" where
  "JWT_SECRET_express = None"

subsection \<open>authMiddleware\<close>

text \<open>
  \<open>res\<close> is \<^verbatim>\<open>res.status(s).json(b)\<close> and \<open>next\<close> the wrapped handler. Everything inside
  \<^verbatim>\<open>try\<close> that throws, the ReferenceError included, ends in the \<^verbatim>\<open>catch\<close> branch.
\<close>

definition authMiddleware ::
  "express_lib \<Rightarrow> nat \<Rightarrow> request \<Rightarrow> (nat \<Rightarrow> jv \<Rightarrow> 'r) \<Rightarrow> (request \<Rightarrow> 'r) \<Rightarrow> 'r" where
  "authMiddleware L now req res next =
     (let token = (case headers_authorization req of
                     None \<Rightarrow> None
                   | Some a \<Rightarrow> index (split CHR '' '' a) 1)
      in case truthy token of
           None \<Rightarrow> res 401 (error_body ''Authentication failed: No token provided.'')
         | Some t \<Rightarrow>
             (case JWT_SECRET_express of
                None \<Rightarrow> res 401 (error_body ''Authentication failed: Invalid token.'')
              | Some secret \<Rightarrow>
                  (case jwt_verify L t secret now of
                     Inl e \<Rightarrow> res 401 (error_body ''Authentication failed: Invalid token.'')
                   | Inr decoded \<Rightarrow> next (req\<lparr>user := Some decoded\<rparr>))))"

subsection \<open>Registration and login\<close>

text \<open>
  \<open>dbfail\<close>: the datastore call reports an error other than a duplicate key; \<open>salt\<close>:
  the salt the hasher draws; \<open>now\<close>: the clock. A failed \<^verbatim>\<open>INSERT\<close> leaves the table as
  it was.
\<close>

definition post_api_register ::
  "express_lib \<Rightarrow> bool \<Rightarrow> nat \<Rightarrow> nat \<Rightarrow> my_db \<Rightarrow> request \<Rightarrow> outcome \<times> my_db" where
  "post_api_register L dbfail salt now db req =
     (case (truthy (body req ''email''), truthy (body req ''password''),
            truthy (body req ''username'')) of
        (Some email, Some password, Some username) \<Rightarrow>
          (case bcryptjs_hash L password 10 salt of
             None \<Rightarrow> (Reply 500 (error_body ''Registration failed.''), db)
           | Some hashedPassword \<Rightarrow>
               if dbfail then (Reply 500 (error_body ''Registration failed.''), db)
               else if list_ex (\<lambda>u. sql_text_eq L (mu_email u) email) (my_users db)
               then (Reply 409 (error_body ''Email already registered.''), db)
               else (Reply 201 (message_body ''Registration successful!''),
                     db\<lparr>my_users := my_users db @
                          [\<lparr>mu_id = my_users_auto db, mu_email = email,
                            mu_password = hashedPassword, mu_username = Some username,
                            mu_member_since = now\<rparr>],
                        my_users_auto := Suc (my_users_auto db)\<rparr>))
      | _ \<Rightarrow> (Reply 400 (error_body ''Username, email, and password are required.''), db))"

text \<open>
  The token is signed inside the callback of \<^verbatim>\<open>bcrypt.compare\<close>, outside any
  \<^verbatim>\<open>try\<close>: the ReferenceError of \<^verbatim>\<open>JWT_SECRET\<close> is caught by nothing and no response
  is sent.
\<close>

definition post_api_login :: "express_lib \<Rightarrow> bool \<Rightarrow> nat \<Rightarrow> my_db \<Rightarrow> request \<Rightarrow> outcome" where
  "post_api_login L dbfail now db req =
     (case (truthy (body req ''email''), truthy (body req ''password'')) of
        (Some email, Some password) \<Rightarrow>
          if dbfail then Reply 500 (error_body ''Login failed.'')
          else (case filter (\<lambda>u. sql_text_eq L (mu_email u) email) (my_users db) of
                  [] \<Rightarrow> Reply 401 (error_body ''Invalid credentials.'')
                | row # _ \<Rightarrow>
                    (case bcryptjs_compare L password (mu_password row) of
                       None \<Rightarrow> Reply 401 (error_body ''Invalid credentials.'')
                     | Some False \<Rightarrow> Reply 401 (error_body ''Invalid credentials.'')
                     | Some True \<Rightarrow>
                         (case JWT_SECRET_express of
                            None \<Rightarrow> Uncaught (ReferenceError ''JWT_SECRET'')
                          | Some secret \<Rightarrow>
                              Reply 200 (JObj [(''message'', JStr ''Login successful!''),
                                (''token'', JStr (jwt_sign L
                                   \<lparr>jid = Some (mu_id row), jemail = Some (mu_email row),
                                    jexp = None\<rparr> secret 3600 now))]))))
      | _ \<Rightarrow> Reply 400 (error_body ''Email and password are required.''))"

subsection \<open>Products\<close>

text \<open>The statement and the parameter list that \<^verbatim>\<open>GET /api/products\<close> builds.\<close>

definition products_sql :: "request \<Rightarrow> string \<times> string list" where
  "products_sql req =
     (let q = query req ''q''; user_id = query req ''user_id'';
          sql = ''SELECT * FROM products''
      in case truthy user_id of
           Some u \<Rightarrow> (sql @ '' WHERE user_id = ?'', [u])
         | None \<Rightarrow>
             (case truthy q of
                Some s \<Rightarrow> (sql @ '' WHERE title LIKE ?'', [''%'' @ s @ ''%''])
              | None \<Rightarrow> (sql, [])))"

text \<open>
  What MySQL answers to the statements that handler can send; \<open>None\<close> is a statement it
  refuses.
\<close>

definition select_products ::
  "express_lib \<Rightarrow> string \<Rightarrow> string list \<Rightarrow> my_product list \<Rightarrow> my_product list option" where
  "select_products L sql ps rows =
     (if sql = ''SELECT * FROM products'' \<and> ps = [] then Some rows
      else if sql = ''SELECT * FROM products WHERE user_id = ?'' then
        (case ps of
           [u] \<Rightarrow> Some (filter (\<lambda>p. case mp_user_id p of None \<Rightarrow> False
                                      | Some n \<Rightarrow> sql_int_eq L n u) rows)
         | _ \<Rightarrow> None)
      else if sql = ''SELECT * FROM products WHERE title LIKE ?'' then
        (case ps of
           [pat] \<Rightarrow> Some (filter (\<lambda>p. sql_like L (mp_title p) pat) rows)
         | _ \<Rightarrow> None)
      else None)"

definition product_json :: "my_product \<Rightarrow> jv" where
  "product_json p = JObj
     [(''id'', JNum (mp_id p)), (''title'', JStr (mp_title p)),
      (''description'', opt_str (mp_description p)), (''category'', opt_str (mp_category p)),
      (''price'', JStr (mp_price p)), (''image_url'', opt_str (mp_image_url p)),
      (''user_id'', opt_num (mp_user_id p))]"

definition get_api_products :: "express_lib \<Rightarrow> bool \<Rightarrow> my_db \<Rightarrow> request \<Rightarrow> outcome" where
  "get_api_products L dbfail db req =
     (case products_sql req of
        (sql, ps) \<Rightarrow>
          if dbfail then Reply 500 (error_body ''Failed to fetch products.'')
          else (case select_products L sql ps (my_products db) of
                  None \<Rightarrow> Reply 500 (error_body ''Failed to fetch products.'')
                | Some results \<Rightarrow> Reply 200 (JArr (map product_json results))))"

text \<open>
  \<^verbatim>\<open>POST /api/products\<close>. \<^verbatim>\<open>req.user\<close> is read after the validation; the broadcast of
  the new product to the connected sockets is not a response and is left out.
\<close>

definition post_api_products :: "bool \<Rightarrow> my_db \<Rightarrow> request \<Rightarrow> outcome \<times> my_db" where
  "post_api_products dbfail db req =
     (case (truthy (body req ''title''), truthy (body req ''category''),
            truthy (body req ''price'')) of
        (Some title, Some category, Some price) \<Rightarrow>
          (case user req of
             None \<Rightarrow> (Uncaught TypeError, db)
           | Some u \<Rightarrow>
               if dbfail then (Reply 500 (error_body ''Failed to add product.''), db)
               else (Reply 201 (message_body ''Product added successfully!''),
                     db\<lparr>my_products := my_products db @
                          [\<lparr>mp_id = my_products_auto db, mp_title = title,
                            mp_description = body req ''description'',
                            mp_category = Some category, mp_price = price,
                            mp_image_url = body req ''image_url'', mp_user_id = jid u\<rparr>],
                        my_products_auto := Suc (my_products_auto db)\<rparr>))
      | _ \<Rightarrow> (Reply 400 (error_body ''Title, category, and price are required.''), db))"

subsection \<open>User profile\<close>

text \<open>A row of \<^verbatim>\<open>SELECT * FROM users\<close> as an object, and \<^verbatim>\<open>delete obj.key\<close>.\<close>

definition user_fields :: "my_user \<Rightarrow> (string \<times> jv) list" where
  "user_fields u =
     [(''id'', JNum (mu_id u)), (''email'', JStr (mu_email u)),
      (''password'', JStr (mu_password u)), (''username'', opt_str (mu_username u)),
      (''member_since'', JNum (mu_member_since u))]"

definition delete_field :: "string \<Rightarrow> (string \<times> jv) list \<Rightarrow> (string \<times> jv) list" where
  "delete_field k fs = filter (\<lambda>f. fst f \<noteq> k) fs"

text \<open>
  After the guard, \<^verbatim>\<open>userId\<close> is the decimal text of \<^verbatim>\<open>req.user.id\<close>, so
  \<^verbatim>\<open>WHERE id = ?\<close> selects the rows with that id.
\<close>

definition get_api_users :: "bool \<Rightarrow> my_db \<Rightarrow> request \<Rightarrow> outcome" where
  "get_api_users dbfail db req =
     (case user req of
        None \<Rightarrow> Uncaught TypeError
      | Some u \<Rightarrow>
          (case jid u of
             None \<Rightarrow> Uncaught TypeError
           | Some i \<Rightarrow>
               if Some (toString i) \<noteq> params req ''userId''
               then Reply 403 (error_body ''Forbidden: You can only access your own data.'')
               else if dbfail then Reply 500 (error_body ''Failed to fetch user data.'')
               else (case filter (\<lambda>r. mu_id r = i) (my_users db) of
                       [] \<Rightarrow> Reply 404 (error_body ''User not found.'')
                     | r # _ \<Rightarrow> Reply 200 (JObj (delete_field ''password'' (user_fields r))))))"

text \<open>
  \<^verbatim>\<open>UPDATE users SET username = ?, email = ? WHERE id = ?\<close>: no matching row is zero
  affected rows; a missing email (NULL in a NOT NULL column) and an email another row
  holds (the UNIQUE key) are datastore errors.
\<close>

definition put_api_users ::
  "express_lib \<Rightarrow> bool \<Rightarrow> my_db \<Rightarrow> request \<Rightarrow> outcome \<times> my_db" where
  "put_api_users L dbfail db req =
     (case user req of
        None \<Rightarrow> (Uncaught TypeError, db)
      | Some u \<Rightarrow>
          (case jid u of
             None \<Rightarrow> (Uncaught TypeError, db)
           | Some i \<Rightarrow>
               if Some (toString i) \<noteq> params req ''userId''
               then (Reply 403 (error_body ''Forbidden: You can only update your own data.''), db)
               else if dbfail then (Reply 500 (error_body ''Failed to update user data.''), db)
               else if filter (\<lambda>r. mu_id r = i) (my_users db) = []
               then (Reply 404 (error_body ''User not found.''), db)
               else (case body req ''email'' of
                       None \<Rightarrow> (Reply 500 (error_body ''Failed to update user data.''), db)
                     | Some email \<Rightarrow>
                         if list_ex (\<lambda>r. mu_id r \<noteq> i \<and> sql_text_eq L (mu_email r) email)
                              (my_users db)
                         then (Reply 500 (error_body ''Failed to update user data.''), db)
                         else (Reply 200 (message_body ''User updated successfully!''),
                               db\<lparr>my_users := map (\<lambda>r. if mu_id r = i
                                      then r\<lparr>mu_username := body req ''username'',
                                             mu_email := email\<rparr>
                                      else r) (my_users db)\<rparr>))))"

text \<open>The routes: a handler behind \<^verbatim>\<open>authMiddleware\<close> runs only as its \<open>next\<close>.\<close>

datatype express_route =
    PostRegister | PostLogin | GetProducts | PostProducts | GetUser | PutUser

definition express ::
  "express_lib \<Rightarrow> bool \<Rightarrow> nat \<Rightarrow> nat \<Rightarrow> express_route \<Rightarrow> request \<Rightarrow> my_db \<Rightarrow>
     outcome \<times> my_db" where
  "express L dbfail salt now r req db =
     (case r of
        PostRegister \<Rightarrow> post_api_register L dbfail salt now db req
      | PostLogin \<Rightarrow> (post_api_login L dbfail now db req, db)
      | GetProducts \<Rightarrow>
          authMiddleware L now req (\<lambda>s b. (Reply s b, db))
            (\<lambda>req'. (get_api_products L dbfail db req', db))
      | PostProducts \<Rightarrow>
          authMiddleware L now req (\<lambda>s b. (Reply s b, db)) (post_api_products dbfail db)
      | GetUser \<Rightarrow>
          authMiddleware L now req (\<lambda>s b. (Reply s b, db))
            (\<lambda>req'. (get_api_users dbfail db req', db))
      | PutUser \<Rightarrow>
          authMiddleware L now req (\<lambda>s b. (Reply s b, db)) (put_api_users L dbfail db))"

section \<open>The Flask server\<close>

subsection \<open>Libraries and datastore\<close>

text \<open>
  \<^verbatim>\<open>os.getenv\<close>; \<^verbatim>\<open>jwt.encode(payload, key, algorithm="HS256")\<close> and
  \<^verbatim>\<open>jwt.decode(token, key, algorithms=["HS256"])\<close> with the clock, which returns the payload
  or raises an \<^verbatim>\<open>InvalidTokenError\<close>; passlib's \<^verbatim>\<open>bcrypt.hash\<close> with the salt it draws and
  \<^verbatim>\<open>bcrypt.verify\<close>, which raises \<^verbatim>\<open>ValueError\<close> (\<open>None\<close>) on a string that is no hash;
  \<^verbatim>\<open>str(e)\<close> of a datastore error, which may quote what the error carries;
  \<^verbatim>\<open>str.lower\<close>; PostgreSQL's \<^verbatim>\<open>LOWER(column) LIKE pattern\<close>
  and its reading of a text parameter for an integer column (\<open>None\<close>: refused);
  \<^verbatim>\<open>datetime.isoformat\<close>. Payloads are the numeric claims.
\<close>

record flask_lib =
  getenv :: "string \<rightharpoonup> string"
  jwt_encode :: "(string \<rightharpoonup> nat) \<Rightarrow> string \<Rightarrow> string"
  jwt_decode :: "string \<Rightarrow> string \<Rightarrow> nat \<Rightarrow> jwt_error + (string \<rightharpoonup> nat)"
  passlib_hash :: "string \<Rightarrow> nat \<Rightarrow> string"
  passlib_verify :: "string \<Rightarrow> string \<Rightarrow> bool option"
  str_error :: "pg_error \<Rightarrow> string"
  str_lower :: "string \<Rightarrow> string"
  pg_lower_like :: "string \<Rightarrow> string \<Rightarrow> bool"
  pg_int :: "string \<Rightarrow> nat option"
  isoformat :: "nat \<Rightarrow> string"

definition JWT_SECRET :: "flask_lib \<Rightarrow> string" where
  "JWT_SECRET L = (case getenv L ''JWT_SECRET'' of None \<Rightarrow> ''supersecret'' | Some s \<Rightarrow> s)"

text \<open>
  Modelled from the spec: the PostgreSQL schema, which the source does not contain. The
  columns are those the statements of the source name; an id is drawn from the table's
  sequence (no statement supplies one, and \<^verbatim>\<open>RETURNING id\<close> reads it back); email,
  username and password hash of a user are strings, never null, and the email is unique
  (spec, section 3); text is compared by equality; a cart item's quantity is an integer.
  No other constraint is modelled.
\<close>

record pg_user =
  pu_id :: nat
  pu_email :: string
  pu_username :: string
  pu_password_hash :: string

record pg_product =
  pp_id :: nat
  pp_title :: string
  pp_description :: "string option"
  pp_category :: string
  pp_price :: string
  pp_image_url :: "string option"
  pp_owner_id :: nat

record pg_cart_item =
  pc_id :: nat
  pc_user_id :: nat
  pc_product_id :: nat
  pc_quantity :: nat

record pg_order =
  po_id :: nat
  po_user_id :: nat
  po_product_id :: nat
  po_purchased_at :: nat

record pg_db =
  pg_users :: "pg_user list"
  pg_users_seq :: nat
  pg_products :: "pg_product list"
  pg_products_seq :: nat
  pg_cart_items :: "pg_cart_item list"
  pg_cart_items_seq :: nat
  pg_orders :: "pg_order list"
  pg_orders_seq :: nat

record py_request =
  headers :: "string \<rightharpoonup> string"
  json :: "string \<rightharpoonup> string"
  args :: "string \<rightharpoonup> string"
  user_id :: "nat option"

subsection \<open>Transactions\<close>

text \<open>
  The body of \<^verbatim>\<open>with get_db() as conn\<close> runs on the connection's transaction: it ends in
  an exception or a value, with the tables as the transaction sees them. Leaving the
  block commits, also through \<^verbatim>\<open>return\<close>; an exception, or a commit that fails, rolls
  back: the tables are those before the block, and only the sequences keep what they
  handed out.

  \<open>fault = Some k\<close> makes the \<open>k\<close>-th datastore operation of the request raise (the
  \<^verbatim>\<open>execute\<close> calls from 0, then the commit); a raising operation changes nothing.
\<close>

type_synonym 'a block = "pg_db \<Rightarrow> (exn + 'a) \<times> pg_db"

definition rollback :: "pg_db \<Rightarrow> pg_db \<Rightarrow> pg_db" where
  "rollback db dbt =
     db\<lparr>pg_users_seq := pg_users_seq dbt, pg_products_seq := pg_products_seq dbt,
        pg_cart_items_seq := pg_cart_items_seq dbt, pg_orders_seq := pg_orders_seq dbt\<rparr>"

definition with_conn :: "bool \<Rightarrow> 'a block \<Rightarrow> 'a block" where
  "with_conn commit_fails blk db =
     (case blk db of
        (Inl e, dbt) \<Rightarrow> (Inl e, rollback db dbt)
      | (Inr r, dbt) \<Rightarrow>
          if commit_fails then (Inl (Psycopg2Error OperationalError), rollback db dbt)
          else (Inr r, dbt))"

definition failed :: "'a block" where
  "failed db = (Inl (Psycopg2Error OperationalError), db)"

text \<open>A view that returns a dict replies 200; an exception that leaves the view is uncaught.\<close>

definition respond :: "(exn + outcome) \<times> pg_db \<Rightarrow> outcome \<times> pg_db" where
  "respond r = (case r of (Inl e, db) \<Rightarrow> (Uncaught e, db) | (Inr out, db) \<Rightarrow> (out, db))"

subsection \<open>require\_auth\<close>

definition require_auth ::
  "flask_lib \<Rightarrow> nat \<Rightarrow> (py_request \<Rightarrow> pg_db \<Rightarrow> outcome \<times> pg_db) \<Rightarrow>
     py_request \<Rightarrow> pg_db \<Rightarrow> outcome \<times> pg_db" where
  "require_auth L now f request db =
     (let auth = (case headers request ''Authorization'' of None \<Rightarrow> [] | Some a \<Rightarrow> a)
      in if \<not> startswith auth ''Bearer '' then (Reply 401 (error_body ''Missing token''), db)
         else (case index (split CHR '' '' auth) 1 of
                 None \<Rightarrow> (Uncaught IndexError, db)
               | Some token \<Rightarrow>
                   (case jwt_decode L token (JWT_SECRET L) now of
                      Inl e \<Rightarrow> (Reply 401 (error_body ''Invalid token''), db)
                    | Inr payload \<Rightarrow>
                        (case payload ''uid'' of
                           None \<Rightarrow> (Uncaught (KeyError ''uid''), db)
                         | Some uid \<Rightarrow> f (request\<lparr>user_id := Some uid\<rparr>) db))))"

subsection \<open>Signup and login\<close>

text \<open>
  \<^verbatim>\<open>signup\<close> catches \<^verbatim>\<open>psycopg2.Error\<close> around the block and replies 400 with
  \<^verbatim>\<open>str(e)\<close>. \<^verbatim>\<open>data.get("username")\<close> gives NULL for a missing field, which the column
  refuses before the unique key is looked at; the error names the failing row, rendered
  as text for the columns that the model keeps. The sequence value of a refused row is
  spent.
\<close>

definition signup ::
  "flask_lib \<Rightarrow> nat option \<Rightarrow> nat \<Rightarrow> py_request \<Rightarrow> pg_db \<Rightarrow> outcome \<times> pg_db" where
  "signup L fault salt request db =
     (let data = json request
      in case (truthy (data ''email''), truthy (data ''password'')) of
           (Some email, Some password) \<Rightarrow>
             (let hashed = passlib_hash L password salt
              in case with_conn (fault = Some 1)
                   (\<lambda>db. if fault = Some 0 then failed db
                      else (case data ''username'' of
                              None \<Rightarrow>
                                (Inl (Psycopg2Error (NotNullViolation ''username''
                                   [toString (pg_users_seq db), email, ''null'', hashed])),
                                 db\<lparr>pg_users_seq := Suc (pg_users_seq db)\<rparr>)
                            | Some username \<Rightarrow>
                                if email \<in> set (map pu_email (pg_users db))
                                then (Inl (Psycopg2Error (UniqueViolation ''email'' email)),
                                      db\<lparr>pg_users_seq := Suc (pg_users_seq db)\<rparr>)
                                else (Inr (pg_users_seq db),
                                      db\<lparr>pg_users := pg_users db @
                                           [\<lparr>pu_id = pg_users_seq db, pu_email = email,
                                             pu_username = username,
                                             pu_password_hash = hashed\<rparr>],
                                         pg_users_seq := Suc (pg_users_seq db)\<rparr>))) db of
                   (Inr uid, db') \<Rightarrow>
                     (Reply 200 (JObj [(''message'', JStr ''User created''), (''id'', JNum uid)]),
                      db')
                 | (Inl (Psycopg2Error e), db') \<Rightarrow> (Reply 400 (error_body (str_error L e)), db')
                 | (Inl e, db') \<Rightarrow> (Uncaught e, db'))
         | _ \<Rightarrow> (Reply 400 (error_body ''Email and password required''), db))"

text \<open>
  \<^verbatim>\<open>data["email"]\<close> is read for the query and \<^verbatim>\<open>data["password"]\<close> only when a row was
  found: \<^verbatim>\<open>not row or ...\<close> does not evaluate its right side without one.
\<close>

definition login ::
  "flask_lib \<Rightarrow> nat option \<Rightarrow> nat \<Rightarrow> py_request \<Rightarrow> pg_db \<Rightarrow> outcome \<times> pg_db" where
  "login L fault now request db =
     (let data = json request
      in respond (with_conn (fault = Some 1)
           (\<lambda>db. case data ''email'' of
                    None \<Rightarrow> (Inl (KeyError ''email''), db)
                  | Some email \<Rightarrow>
                      if fault = Some 0 then failed db
                      else (case filter (\<lambda>u. pu_email u = email) (pg_users db) of
                              [] \<Rightarrow> (Inr (Reply 401 (error_body ''Invalid credentials'')), db)
                            | row # _ \<Rightarrow>
                                (case data ''password'' of
                                   None \<Rightarrow> (Inl (KeyError ''password''), db)
                                 | Some password \<Rightarrow>
                                     (case passlib_verify L password (pu_password_hash row) of
                                        None \<Rightarrow> (Inl ValueError, db)
                                      | Some False \<Rightarrow>
                                          (Inr (Reply 401 (error_body ''Invalid credentials'')), db)
                                      | Some True \<Rightarrow>
                                          (Inr (Reply 200 (JObj
                                             [(''token'', JStr (jwt_encode L
                                                 [''uid'' \<mapsto> pu_id row, ''exp'' \<mapsto> now + 28800]
                                                 (JWT_SECRET L))),
                                              (''user'', JObj
                                                 [(''id'', JNum (pu_id row)),
                                                  (''email'', JStr email),
                                                  (''username'', JStr (pu_username row))])])),
                                           db))))) db))"

subsection \<open>User profile\<close>

definition me :: "nat option \<Rightarrow> py_request \<Rightarrow> pg_db \<Rightarrow> outcome \<times> pg_db" where
  "me fault request db =
     respond (with_conn (fault = Some 1)
       (\<lambda>db. case user_id request of
                None \<Rightarrow> (Inl (AttributeError ''user_id''), db)
              | Some uid \<Rightarrow>
                  if fault = Some 0 then failed db
                  else (case filter (\<lambda>u. pu_id u = uid) (pg_users db) of
                          [] \<Rightarrow> (Inl TypeError, db)
                        | row # _ \<Rightarrow>
                            (Inr (Reply 200 (JObj
                               [(''id'', JNum (pu_id row)), (''email'', JStr (pu_email row)),
                                (''username'', JStr (pu_username row))])), db))) db)"

definition update_me :: "nat option \<Rightarrow> py_request \<Rightarrow> pg_db \<Rightarrow> outcome \<times> pg_db" where
  "update_me fault request db =
     (let data = json request
      in respond (with_conn (fault = Some 1)
           (\<lambda>db. case data ''username'' of
                    None \<Rightarrow> (Inl (KeyError ''username''), db)
                  | Some username \<Rightarrow>
                      (case data ''email'' of
                         None \<Rightarrow> (Inl (KeyError ''email''), db)
                       | Some email \<Rightarrow>
                           (case user_id request of
                              None \<Rightarrow> (Inl (AttributeError ''user_id''), db)
                            | Some uid \<Rightarrow>
                                if fault = Some 0 then failed db
                                else if filter (\<lambda>u. pu_id u = uid) (pg_users db) = []
                                then (Inl TypeError, db)
                                else if email \<in> set (map pu_email
                                          (filter (\<lambda>u. pu_id u \<noteq> uid) (pg_users db)))
                                then (Inl (Psycopg2Error (UniqueViolation ''email'' email)), db)
                                else (Inr (Reply 200 (JObj [(''user'', JObj
                                        [(''id'', JNum uid), (''email'', JStr email),
                                         (''username'', JStr username)])])),
                                      db\<lparr>pg_users := map (\<lambda>u. if pu_id u = uid
                                             then u\<lparr>pu_username := username,
                                                    pu_email := email\<rparr>
                                             else u) (pg_users db)\<rparr>)))) db))"

subsection \<open>Products\<close>

definition product_item :: "pg_product \<Rightarrow> jv" where
  "product_item r = JObj
     [(''id'', JNum (pp_id r)), (''title'', JStr (pp_title r)),
      (''description'', opt_str (pp_description r)), (''category'', JStr (pp_category r)),
      (''price'', JStr (pp_price r)), (''image_url'', opt_str (pp_image_url r)),
      (''owner_id'', JNum (pp_owner_id r))]"

definition list_products ::
  "flask_lib \<Rightarrow> nat option \<Rightarrow> py_request \<Rightarrow> pg_db \<Rightarrow> outcome \<times> pg_db" where
  "list_products L fault request db =
     (let q = str_lower L (case args request ''q'' of None \<Rightarrow> [] | Some s \<Rightarrow> s);
          cat = (case args request ''category'' of None \<Rightarrow> ''All'' | Some c \<Rightarrow> c)
      in respond (with_conn (fault = Some 1)
           (\<lambda>db. if fault = Some 0 then failed db
              else (Inr (Reply 200 (JObj [(''items'', JArr (map product_item
                      (filter (\<lambda>r. (q = [] \<or> pg_lower_like L (pp_title r) (''%'' @ q @ ''%''))
                                   \<and> (cat = ''All'' \<or> pp_category r = cat))
                         (pg_products db))))])), db)) db))"

definition create_product :: "nat option \<Rightarrow> py_request \<Rightarrow> pg_db \<Rightarrow> outcome \<times> pg_db" where
  "create_product fault request db =
     (let data = json request
      in respond (with_conn (fault = Some 1)
           (\<lambda>db. case data ''title'' of
                    None \<Rightarrow> (Inl (KeyError ''title''), db)
                  | Some title \<Rightarrow>
                      (case data ''category'' of
                         None \<Rightarrow> (Inl (KeyError ''category''), db)
                       | Some category \<Rightarrow>
                           (case data ''price'' of
                              None \<Rightarrow> (Inl (KeyError ''price''), db)
                            | Some price \<Rightarrow>
                                (case user_id request of
                                   None \<Rightarrow> (Inl (AttributeError ''user_id''), db)
                                 | Some uid \<Rightarrow>
                                     if fault = Some 0 then failed db
                                     else (Inr (Reply 200 (JObj
                                             [(''id'', JNum (pg_products_seq db))])),
                                           db\<lparr>pg_products := pg_products db @
                                                [\<lparr>pp_id = pg_products_seq db, pp_title = title,
                                                  pp_description = data ''description'',
                                                  pp_category = category, pp_price = price,
                                                  pp_image_url = data ''image_url'',
                                                  pp_owner_id = uid\<rparr>],
                                              pg_products_seq := Suc (pg_products_seq db)\<rparr>))))) db))"

text \<open>
  \<^verbatim>\<open>UPDATE products SET ... WHERE id=%s AND owner_id=%s RETURNING id\<close>; \<^verbatim>\<open>cur.rowcount\<close> is
  the number of rows the condition selects.
\<close>

definition update_product :: "nat option \<Rightarrow> nat \<Rightarrow> py_request \<Rightarrow> pg_db \<Rightarrow> outcome \<times> pg_db" where
  "update_product fault pid request db =
     (let data = json request
      in respond (with_conn (fault = Some 1)
           (\<lambda>db. case data ''title'' of
                    None \<Rightarrow> (Inl (KeyError ''title''), db)
                  | Some title \<Rightarrow>
                      (case data ''category'' of
                         None \<Rightarrow> (Inl (KeyError ''category''), db)
                       | Some category \<Rightarrow>
                           (case data ''price'' of
                              None \<Rightarrow> (Inl (KeyError ''price''), db)
                            | Some price \<Rightarrow>
                                (case user_id request of
                                   None \<Rightarrow> (Inl (AttributeError ''user_id''), db)
                                 | Some uid \<Rightarrow>
                                     if fault = Some 0 then failed db
                                     else let rowcount = length (filter
                                                (\<lambda>r. pp_id r = pid \<and> pp_owner_id r = uid)
                                                (pg_products db));
                                              db' = db\<lparr>pg_products := map
                                                (\<lambda>r. if pp_id r = pid \<and> pp_owner_id r = uid
                                                     then r\<lparr>pp_title := title,
                                                            pp_description := data ''description'',
                                                            pp_category := category,
                                                            pp_price := price,
                                                            pp_image_url := data ''image_url''\<rparr>
                                                     else r) (pg_products db)\<rparr>
                                          in if rowcount = 0
                                             then (Inr (Reply 404 (error_body ''Not found'')), db')
                                             else (Inr (Reply 200 (message_body ''Updated'')), db'))))) db))"

definition delete_product :: "nat option \<Rightarrow> nat \<Rightarrow> py_request \<Rightarrow> pg_db \<Rightarrow> outcome \<times> pg_db" where
  "delete_product fault pid request db =
     respond (with_conn (fault = Some 1)
       (\<lambda>db. case user_id request of
                None \<Rightarrow> (Inl (AttributeError ''user_id''), db)
              | Some uid \<Rightarrow>
                  if fault = Some 0 then failed db
                  else (Inr (Reply 200 (message_body ''Deleted'')),
                        db\<lparr>pg_products := filter
                             (\<lambda>r. \<not> (pp_id r = pid \<and> pp_owner_id r = uid)) (pg_products db)\<rparr>)) db)"

definition listing_item :: "pg_product \<Rightarrow> jv" where
  "listing_item r = JObj
     [(''id'', JNum (pp_id r)), (''title'', JStr (pp_title r)), (''price'', JStr (pp_price r)),
      (''category'', JStr (pp_category r)), (''image_url'', opt_str (pp_image_url r))]"

definition my_listings :: "nat option \<Rightarrow> py_request \<Rightarrow> pg_db \<Rightarrow> outcome \<times> pg_db" where
  "my_listings fault request db =
     respond (with_conn (fault = Some 1)
       (\<lambda>db. case user_id request of
                None \<Rightarrow> (Inl (AttributeError ''user_id''), db)
              | Some uid \<Rightarrow>
                  if fault = Some 0 then failed db
                  else (Inr (Reply 200 (JObj [(''items'', JArr (map listing_item
                          (filter (\<lambda>r. pp_owner_id r = uid) (pg_products db))))])), db)) db)"

subsection \<open>Cart and orders\<close>

text \<open>\<^verbatim>\<open>FROM a JOIN products p ON a.product_id = p.id\<close>: each row with each product it names.\<close>

definition join_products :: "('a \<Rightarrow> nat) \<Rightarrow> 'a list \<Rightarrow> pg_product list \<Rightarrow> ('a \<times> pg_product) list" where
  "join_products product_id rows ps =
     concat (map (\<lambda>a. map (\<lambda>p. (a, p)) (filter (\<lambda>p. pp_id p = product_id a) ps)) rows)"

definition cart_item :: "pg_cart_item \<times> pg_product \<Rightarrow> jv" where
  "cart_item cp = (case cp of (c, p) \<Rightarrow> JObj
     [(''id'', JNum (pc_id c)), (''title'', JStr (pp_title p)), (''price'', JStr (pp_price p)),
      (''image_url'', opt_str (pp_image_url p))])"

definition get_cart :: "nat option \<Rightarrow> py_request \<Rightarrow> pg_db \<Rightarrow> outcome \<times> pg_db" where
  "get_cart fault request db =
     respond (with_conn (fault = Some 1)
       (\<lambda>db. case user_id request of
                None \<Rightarrow> (Inl (AttributeError ''user_id''), db)
              | Some uid \<Rightarrow>
                  if fault = Some 0 then failed db
                  else (Inr (Reply 200 (JObj [(''items'', JArr (map cart_item
                          (join_products pc_product_id
                             (filter (\<lambda>c. pc_user_id c = uid) (pg_cart_items db))
                             (pg_products db))))])), db)) db)"

definition add_cart ::
  "flask_lib \<Rightarrow> nat option \<Rightarrow> py_request \<Rightarrow> pg_db \<Rightarrow> outcome \<times> pg_db" where
  "add_cart L fault request db =
     (let data = json request
      in respond (with_conn (fault = Some 1)
           (\<lambda>db. case user_id request of
                    None \<Rightarrow> (Inl (AttributeError ''user_id''), db)
                  | Some uid \<Rightarrow>
                      (case data ''product_id'' of
                         None \<Rightarrow> (Inl (KeyError ''product_id''), db)
                       | Some product_id \<Rightarrow>
                           if fault = Some 0 then failed db
                           else (case (pg_int L product_id,
                                       pg_int L (case data ''quantity'' of None \<Rightarrow> ''1''
                                                 | Some n \<Rightarrow> n)) of
                                   (Some p, Some n) \<Rightarrow>
                                     (Inr (Reply 200 (message_body ''Added'')),
                                      db\<lparr>pg_cart_items := pg_cart_items db @
                                           [\<lparr>pc_id = pg_cart_items_seq db, pc_user_id = uid,
                                             pc_product_id = p, pc_quantity = n\<rparr>],
                                         pg_cart_items_seq := Suc (pg_cart_items_seq db)\<rparr>)
                                 | _ \<Rightarrow> (Inl (Psycopg2Error DataError), db)))) db))"

definition remove_cart :: "nat option \<Rightarrow> nat \<Rightarrow> py_request \<Rightarrow> pg_db \<Rightarrow> outcome \<times> pg_db" where
  "remove_cart fault item_id request db =
     respond (with_conn (fault = Some 1)
       (\<lambda>db. case user_id request of
                None \<Rightarrow> (Inl (AttributeError ''user_id''), db)
              | Some uid \<Rightarrow>
                  if fault = Some 0 then failed db
                  else (Inr (Reply 200 (message_body ''Removed'')),
                        db\<lparr>pg_cart_items := filter
                             (\<lambda>c. \<not> (pc_id c = item_id \<and> pc_user_id c = uid))
                             (pg_cart_items db)\<rparr>)) db)"

text \<open>
  \<^verbatim>\<open>INSERT INTO orders (user_id, product_id, purchased_at) SELECT user_id, product_id, NOW()
  FROM cart_items WHERE user_id=%s\<close>: one order for each cart row of the user, with
  consecutive ids from the sequence.
\<close>

definition insert_orders :: "nat \<Rightarrow> nat \<Rightarrow> pg_db \<Rightarrow> pg_db" where
  "insert_orders now uid db =
     (let rows = filter (\<lambda>c. pc_user_id c = uid) (pg_cart_items db)
      in db\<lparr>pg_orders := pg_orders db @
               map (\<lambda>(k, c). \<lparr>po_id = k, po_user_id = pc_user_id c,
                               po_product_id = pc_product_id c, po_purchased_at = now\<rparr>)
                 (enumerate (pg_orders_seq db) rows),
             pg_orders_seq := pg_orders_seq db + length rows\<rparr>)"

text \<open>\<^verbatim>\<open>DELETE FROM cart_items WHERE user_id=%s\<close>.\<close>

definition delete_cart_items :: "nat \<Rightarrow> pg_db \<Rightarrow> pg_db" where
  "delete_cart_items uid db =
     db\<lparr>pg_cart_items := filter (\<lambda>c. pc_user_id c \<noteq> uid) (pg_cart_items db)\<rparr>"

text \<open>The two statements run in the one transaction of the block; operation 2 is the commit.\<close>

definition checkout :: "nat option \<Rightarrow> nat \<Rightarrow> py_request \<Rightarrow> pg_db \<Rightarrow> outcome \<times> pg_db" where
  "checkout fault now request db =
     respond (with_conn (fault = Some 2)
       (\<lambda>db. case user_id request of
                None \<Rightarrow> (Inl (AttributeError ''user_id''), db)
              | Some uid \<Rightarrow>
                  if fault = Some 0 then failed db
                  else let db1 = insert_orders now uid db
                       in if fault = Some 1 then failed db1
                          else (Inr (Reply 200 (message_body ''Order placed'')),
                                delete_cart_items uid db1)) db)"

definition order_item :: "flask_lib \<Rightarrow> pg_order \<times> pg_product \<Rightarrow> jv" where
  "order_item L row = (case row of (ord, p) \<Rightarrow> JObj
     [(''id'', JNum (po_id ord)), (''title'', JStr (pp_title p)), (''price'', JStr (pp_price p)),
      (''image_url'', opt_str (pp_image_url p)),
      (''purchased_at'', JStr (isoformat L (po_purchased_at ord)))])"

text \<open>\<^verbatim>\<open>ORDER BY o.purchased_at DESC\<close>; rows of one instant come in some order.\<close>

definition orders ::
  "flask_lib \<Rightarrow> nat option \<Rightarrow> py_request \<Rightarrow> pg_db \<Rightarrow> outcome \<times> pg_db" where
  "orders L fault request db =
     respond (with_conn (fault = Some 1)
       (\<lambda>db. case user_id request of
                None \<Rightarrow> (Inl (AttributeError ''user_id''), db)
              | Some uid \<Rightarrow>
                  if fault = Some 0 then failed db
                  else (Inr (Reply 200 (JObj [(''items'', JArr (map (order_item L)
                          (rev (sort_key (\<lambda>row. po_purchased_at (fst row))
                             (join_products po_product_id
                                (filter (\<lambda>ord. po_user_id ord = uid) (pg_orders db))
                                (pg_products db))))))])), db)) db)"

subsection \<open>Routes\<close>

datatype flask_route =
    Signup | Login | Me | UpdateMe | ListProducts | CreateProduct
  | UpdateProduct nat | DeleteProduct nat | MyListings
  | GetCart | AddCart | RemoveCart nat | Checkout | Orders

definition flask ::
  "flask_lib \<Rightarrow> nat option \<Rightarrow> nat \<Rightarrow> nat \<Rightarrow> flask_route \<Rightarrow> py_request \<Rightarrow> pg_db \<Rightarrow>
     outcome \<times> pg_db" where
  "flask L fault salt now r request db =
     (case r of
        Signup \<Rightarrow> signup L fault salt request db
      | Login \<Rightarrow> login L fault now request db
      | Me \<Rightarrow> require_auth L now (me fault) request db
      | UpdateMe \<Rightarrow> require_auth L now (update_me fault) request db
      | ListProducts \<Rightarrow> require_auth L now (list_products L fault) request db
      | CreateProduct \<Rightarrow> require_auth L now (create_product fault) request db
      | UpdateProduct pid \<Rightarrow> require_auth L now (update_product fault pid) request db
      | DeleteProduct pid \<Rightarrow> require_auth L now (delete_product fault pid) request db
      | MyListings \<Rightarrow> require_auth L now (my_listings fault) request db
      | GetCart \<Rightarrow> require_auth L now (get_cart fault) request db
      | AddCart \<Rightarrow> require_auth L now (add_cart L fault) request db
      | RemoveCart item_id \<Rightarrow> require_auth L now (remove_cart fault item_id) request db
      | Checkout \<Rightarrow> require_auth L now (checkout fault now) request db
      | Orders \<Rightarrow> require_auth L now (orders L fault) request db)"

subsection \<open>Who a request speaks for\<close>

text \<open>
  What \<^verbatim>\<open>require_auth\<close> decides before it calls the view, read off its branches: the reply
  it gives itself, or the identity it attaches. \<open>require_auth_credentials\<close> below shows
  the two agree.
\<close>

definition credentials :: "flask_lib \<Rightarrow> nat \<Rightarrow> py_request \<Rightarrow> outcome + nat" where
  "credentials L now request =
     (case headers request ''Authorization'' of
        None \<Rightarrow> Inl (Reply 401 (error_body ''Missing token''))
      | Some auth \<Rightarrow>
          if \<not> startswith auth ''Bearer '' then Inl (Reply 401 (error_body ''Missing token''))
          else (case index (split CHR '' '' auth) 1 of
                  None \<Rightarrow> Inl (Uncaught IndexError)
                | Some token \<Rightarrow>
                    (case jwt_decode L token (JWT_SECRET L) now of
                       Inl e \<Rightarrow> Inl (Reply 401 (error_body ''Invalid token''))
                     | Inr payload \<Rightarrow>
                         (case payload ''uid'' of
                            None \<Rightarrow> Inl (Uncaught (KeyError ''uid''))
                          | Some uid \<Rightarrow> Inr uid))))"

text \<open>A run of the server: the requests one after the other, each on the tables the last left.\<close>

type_synonym flask_call = "nat option \<times> nat \<times> nat \<times> flask_route \<times> py_request"

fun flask_run :: "flask_lib \<Rightarrow> flask_call list \<Rightarrow> pg_db \<Rightarrow> pg_db" where
  "flask_run L [] db = db"
| "flask_run L ((fault, salt, now, r, request) # cs) db =
     flask_run L cs (snd (flask L fault salt now r request db))"

type_synonym express_call = "bool \<times> nat \<times> nat \<times> express_route \<times> request"

fun express_run :: "express_lib \<Rightarrow> express_call list \<Rightarrow> my_db \<Rightarrow> my_db" where
  "express_run L [] db = db"
| "express_run L ((dbfail, salt, now, r, req) # cs) db =
     express_run L cs (snd (express L dbfail salt now r req db))"

subsection \<open>What is stored and what is sent\<close>

text \<open>
  The id and the password column of every user row, for each datastore, and the field
  names that the replies of the two servers use.
\<close>

definition my_stored :: "my_db \<Rightarrow> (nat \<times> string) list" where
  "my_stored db = map (\<lambda>u. (mu_id u, mu_password u)) (my_users db)"

definition stored :: "pg_db \<Rightarrow> (nat \<times> string) list" where
  "stored db = map (\<lambda>u. (pu_id u, pu_password_hash u)) (pg_users db)"

definition public_fields :: "string set" where
  "public_fields = {''error'', ''message'', ''id'', ''token'', ''user'', ''email'', ''username'',
     ''items'', ''title'', ''description'', ''category'', ''price'', ''image_url'', ''owner_id'',
     ''purchased_at'', ''user_id'', ''member_since''}"

section \<open>Reference instances\<close>

text \<open>
  A small library instance and a small datastore on which the theorems below are evaluated.
  The hasher prefixes its input; the verifier knows no token.
\<close>

definition ref_express_lib :: express_lib where
  "ref_express_lib =
     \<lparr>jwt_sign = (\<lambda>p secret ttl now. ''signed''),
      jwt_verify = (\<lambda>t secret now. Inl Malformed),
      bcryptjs_hash = (\<lambda>p rounds salt. Some (''$2a$'' @ p)),
      bcryptjs_compare = (\<lambda>p h. Some (h = ''$2a$'' @ p)),
      sql_text_eq = (\<lambda>a b. a = b),
      sql_like = (\<lambda>v pat. pat = ''%'' @ v @ ''%''),
      sql_int_eq = (\<lambda>n s. s = toString n)\<rparr>"

definition empty_request :: request where
  "empty_request =
     \<lparr>headers_authorization = None, body = Map.empty, query = Map.empty,
      params = Map.empty, user = None\<rparr>"

definition ana :: my_user where
  "ana = \<lparr>mu_id = 1, mu_email = ''a@x.com'', mu_password = ''$2a$secret1'',
          mu_username = Some ''ana'', mu_member_since = 0\<rparr>"

definition lamp :: my_product where
  "lamp = \<lparr>mp_id = 1, mp_title = ''Lamp'', mp_description = None,
           mp_category = Some ''Home'', mp_price = ''12.5'', mp_image_url = None,
           mp_user_id = Some 1\<rparr>"

definition ref_my_db :: my_db where
  "ref_my_db = \<lparr>my_users = [ana], my_users_auto = 2, my_products = [lamp],
                my_products_auto = 2\<rparr>"

text \<open>
  For the Flask server: a signer and a verifier for the tokens of two users issued at time
  0, and one more token, \<^verbatim>\<open>anon\<close>, that verifies and has no \<^verbatim>\<open>uid\<close> claim.
\<close>

text \<open>Error texts in the manner of PostgreSQL, which quotes the key or the failing row.\<close>

fun commas :: "string list \<Rightarrow> string" where
  "commas [] = []"
| "commas [x] = x"
| "commas (x # y # ys) = x @ '', '' @ commas (y # ys)"

fun ref_str_error :: "pg_error \<Rightarrow> string" where
  "ref_str_error (UniqueViolation col v) =
     ''duplicate key value violates unique constraint DETAIL: Key ('' @ col @ '')=('' @ v @
     '') already exists.''"
| "ref_str_error (NotNullViolation col row) =
     ''null value in column '' @ col @
     '' violates not-null constraint DETAIL: Failing row contains ('' @ commas row @ '').''"
| "ref_str_error DataError = ''invalid input syntax for type integer''"
| "ref_str_error OperationalError = ''server closed the connection unexpectedly''"

definition ref_flask_lib :: flask_lib where
  "ref_flask_lib =
     \<lparr>getenv = Map.empty,
      jwt_encode = (\<lambda>p key.
         if p ''uid'' = Some 1 then ''ana'' else if p ''uid'' = Some 2 then ''bob''
         else ''anon''),
      jwt_decode = (\<lambda>t key now.
         if key \<noteq> ''supersecret'' then Inl BadSignature
         else if t \<notin> {''ana'', ''bob'', ''anon''} then Inl Malformed
         else if 28800 \<le> now then Inl Expired
         else if t = ''ana'' then Inr [''uid'' \<mapsto> 1, ''exp'' \<mapsto> 28800]
         else if t = ''bob'' then Inr [''uid'' \<mapsto> 2, ''exp'' \<mapsto> 28800]
         else Inr [''exp'' \<mapsto> 28800]),
      passlib_hash = (\<lambda>p salt. ''$2b$'' @ p),
      passlib_verify = (\<lambda>p h. Some (h = ''$2b$'' @ p)),
      str_error = ref_str_error,
      str_lower = (\<lambda>s. s),
      pg_lower_like = (\<lambda>v pat. pat = ''%'' @ v @ ''%''),
      pg_int = (\<lambda>s. if s = ''1'' then Some 1 else None),
      isoformat = toString\<rparr>"

definition bearer_request :: "string \<Rightarrow> py_request" where
  "bearer_request t =
     \<lparr>headers = [''Authorization'' \<mapsto> ''Bearer '' @ t], json = Map.empty, args = Map.empty,
      user_id = None\<rparr>"

definition anonymous_request :: py_request where
  "anonymous_request =
     \<lparr>headers = Map.empty, json = Map.empty, args = Map.empty, user_id = None\<rparr>"

definition pg_ana :: pg_user where
  "pg_ana = \<lparr>pu_id = 1, pu_email = ''a@x.com'', pu_username = ''ana'',
             pu_password_hash = ''$2b$secret1''\<rparr>"

definition pg_bob :: pg_user where
  "pg_bob = \<lparr>pu_id = 2, pu_email = ''b@x.com'', pu_username = ''bob'',
             pu_password_hash = ''$2b$secret2''\<rparr>"

definition pg_lamp :: pg_product where
  "pg_lamp = \<lparr>pp_id = 1, pp_title = ''Lamp'', pp_description = None, pp_category = ''Home'',
              pp_price = ''12.5'', pp_image_url = None, pp_owner_id = 1\<rparr>"

definition bobs_item :: pg_cart_item where
  "bobs_item = \<lparr>pc_id = 1, pc_user_id = 2, pc_product_id = 1, pc_quantity = 1\<rparr>"

definition ref_pg_db :: pg_db where
  "ref_pg_db =
     \<lparr>pg_users = [pg_ana, pg_bob], pg_users_seq = 3, pg_products = [pg_lamp],
      pg_products_seq = 2, pg_cart_items = [bobs_item], pg_cart_items_seq = 2,
      pg_orders = [], pg_orders_seq = 1\<rparr>"

definition carol :: "string \<rightharpoonup> string" where
  "carol = [''email'' \<mapsto> ''c@x.com'', ''username'' \<mapsto> ''cy'', ''password'' \<mapsto> ''secret3'']"

section \<open>Supporting lemmas\<close>

subsection \<open>The decorator of the Flask views\<close>

lemma require_auth_credentials:
  "require_auth L now f request db =
     (case credentials L now request of
        Inl out \<Rightarrow> (out, db)
      | Inr uid \<Rightarrow> f (request\<lparr>user_id := Some uid\<rparr>) db)"
  by (simp add: require_auth_def credentials_def startswith_def Let_def
      split: option.splits sum.splits)

lemma split_no_separator: "c \<notin> set s \<Longrightarrow> split c s = [s]"
  by (induction s) auto

lemma split_bearer:
  "CHR '' '' \<notin> set t \<Longrightarrow> index (split CHR '' '' (''Bearer '' @ t)) 1 = Some t"
  by (simp add: split_no_separator index_def)

lemma credentials_bearer:
  "headers request ''Authorization'' = Some (''Bearer '' @ t) \<Longrightarrow> CHR '' '' \<notin> set t \<Longrightarrow>
   credentials L now request =
     (case jwt_decode L t (JWT_SECRET L) now of
        Inl e \<Rightarrow> Inl (Reply 401 (error_body ''Invalid token''))
      | Inr payload \<Rightarrow>
          (case payload ''uid'' of
             None \<Rightarrow> Inl (Uncaught (KeyError ''uid''))
           | Some uid \<Rightarrow> Inr uid))"
  using split_bearer [of t]
  by (simp add: credentials_def startswith_def)

text \<open>
  All the decorator does: it replies 401 itself when there is no bearer token or the
  library rejects it, calls the view with the \<^verbatim>\<open>uid\<close> of the payload when there is one,
  and lets the KeyError escape when the payload has none.
\<close>

lemma require_auth_cases:
  "headers request ''Authorization'' = None \<Longrightarrow>
     require_auth L now f request db = (Reply 401 (error_body ''Missing token''), db)"
  "headers request ''Authorization'' = Some a \<Longrightarrow> \<not> startswith a ''Bearer '' \<Longrightarrow>
     require_auth L now f request db = (Reply 401 (error_body ''Missing token''), db)"
  "headers request ''Authorization'' = Some (''Bearer '' @ t) \<Longrightarrow> CHR '' '' \<notin> set t \<Longrightarrow>
   jwt_decode L t (JWT_SECRET L) now = Inl e \<Longrightarrow>
     require_auth L now f request db = (Reply 401 (error_body ''Invalid token''), db)"
  "headers request ''Authorization'' = Some (''Bearer '' @ t) \<Longrightarrow> CHR '' '' \<notin> set t \<Longrightarrow>
   jwt_decode L t (JWT_SECRET L) now = Inr payload \<Longrightarrow> payload ''uid'' = Some uid \<Longrightarrow>
     require_auth L now f request db = f (request\<lparr>user_id := Some uid\<rparr>) db"
  "headers request ''Authorization'' = Some (''Bearer '' @ t) \<Longrightarrow> CHR '' '' \<notin> set t \<Longrightarrow>
   jwt_decode L t (JWT_SECRET L) now = Inr payload \<Longrightarrow> payload ''uid'' = None \<Longrightarrow>
     require_auth L now f request db = (Uncaught (KeyError ''uid''), db)"
  by (simp_all add: require_auth_credentials credentials_bearer)
     (simp_all add: credentials_def)

lemma rollback_tables [simp]:
  "pg_users (rollback db dbt) = pg_users db"
  "pg_products (rollback db dbt) = pg_products db"
  "pg_cart_items (rollback db dbt) = pg_cart_items db"
  "pg_orders (rollback db dbt) = pg_orders db"
  by (simp_all add: rollback_def)

subsection \<open>Listings\<close>

lemma not_selected:
  "\<forall>r\<in>set xs. \<not> P r \<Longrightarrow> map (\<lambda>r. if P r then g r else r) xs = xs \<and> filter P xs = []
     \<and> filter (\<lambda>r. \<not> P r) xs = xs"
  by (induction xs) auto

lemma update_product_other:
  assumes "user_id request = Some uid"
      and "\<forall>r\<in>set (pg_products db). \<not> (pp_id r = pid \<and> pp_owner_id r = uid)"
  shows "pg_products (snd (update_product fault pid request db)) = pg_products db"
    and "status (fst (update_product fault pid request db)) \<noteq> 403"
    and "fault = None \<Longrightarrow> json request ''title'' = Some t \<Longrightarrow> json request ''category'' = Some c \<Longrightarrow>
         json request ''price'' = Some p \<Longrightarrow>
         fst (update_product fault pid request db) = Reply 404 (error_body ''Not found'')"
  using assms not_selected [OF assms(2)]
  by (auto simp: update_product_def with_conn_def respond_def failed_def Let_def
      split: option.splits)

lemma delete_product_other:
  assumes "user_id request = Some uid"
      and "\<forall>r\<in>set (pg_products db). \<not> (pp_id r = pid \<and> pp_owner_id r = uid)"
  shows "pg_products (snd (delete_product fault pid request db)) = pg_products db"
    and "status (fst (delete_product fault pid request db)) \<noteq> 403"
    and "fault = None \<Longrightarrow>
         fst (delete_product fault pid request db) = Reply 200 (message_body ''Deleted'')"
  using assms not_selected [OF assms(2)]
  by (auto simp: delete_product_def with_conn_def respond_def failed_def Let_def
      split: option.splits)


lemma other_listing_as_absent:
  assumes "user_id request = Some uid"
      and "\<forall>r\<in>set (pg_products db). \<not> (pp_id r = pid \<and> pp_owner_id r = uid)"
      and "\<forall>r\<in>set ps. \<not> (pp_id r = pid \<and> pp_owner_id r = uid)"
  shows "fst (update_product fault pid request (db\<lparr>pg_products := ps\<rparr>))
           = fst (update_product fault pid request db)"
    and "fst (delete_product fault pid request (db\<lparr>pg_products := ps\<rparr>))
           = fst (delete_product fault pid request db)"
  using assms(1) not_selected [OF assms(2)] not_selected [OF assms(3)]
  by (auto simp: update_product_def delete_product_def with_conn_def respond_def failed_def
      Let_def split: option.splits)

lemma distinct_key:
  "distinct (map f xs) \<Longrightarrow> x \<in> set xs \<Longrightarrow> y \<in> set xs \<Longrightarrow> f x = f y \<Longrightarrow> x = y"
  by (meson distinct_map inj_onD)

lemma delete_product_owner:
  assumes "user_id request = Some uid" and "distinct (map pp_id (pg_products db))"
      and "l \<in> set (pg_products db)" and "pp_owner_id l = uid"
  shows "set (pg_products (snd (delete_product None (pp_id l) request db)))
           = set (pg_products db) - {l}"
    and "fst (delete_product None (pp_id l) request db) = Reply 200 (message_body ''Deleted'')"
  using assms distinct_key [OF assms(2) _ assms(3), of _]
  by (auto simp: delete_product_def with_conn_def respond_def failed_def)

lemma update_product_owner:
  assumes "user_id request = Some uid" and "distinct (map pp_id (pg_products db))"
      and "l \<in> set (pg_products db)" and "pp_owner_id l = uid"
      and "json request ''title'' = Some t" and "json request ''category'' = Some c"
      and "json request ''price'' = Some p"
  shows "pg_products (snd (update_product None (pp_id l) request db))
           = map (\<lambda>r. if r = l
                       then r\<lparr>pp_title := t, pp_description := json request ''description'',
                              pp_category := c, pp_price := p,
                              pp_image_url := json request ''image_url''\<rparr>
                       else r) (pg_products db)"
    and "fst (update_product None (pp_id l) request db) = Reply 200 (message_body ''Updated'')"
proof -
  have same: "\<And>r. r \<in> set (pg_products db) \<Longrightarrow>
      (pp_id r = pp_id l \<and> pp_owner_id r = uid) = (r = l)"
    using distinct_key [OF assms(2) _ assms(3)] assms(4) by auto
  have sel: "filter (\<lambda>r. pp_id r = pp_id l \<and> pp_owner_id r = uid) (pg_products db) \<noteq> []"
    using assms(3,4) by (auto simp: filter_empty_conv)
  show "pg_products (snd (update_product None (pp_id l) request db))
           = map (\<lambda>r. if r = l
                       then r\<lparr>pp_title := t, pp_description := json request ''description'',
                              pp_category := c, pp_price := p,
                              pp_image_url := json request ''image_url''\<rparr>
                       else r) (pg_products db)"
    using assms(1,5,6,7) same
    by (auto simp: update_product_def with_conn_def respond_def failed_def Let_def)
  show "fst (update_product None (pp_id l) request db) = Reply 200 (message_body ''Updated'')"
    using assms(1,5,6,7) sel
    by (auto simp: update_product_def with_conn_def respond_def failed_def Let_def)
qed

subsection \<open>Checkout\<close>

lemma insert_orders_tables [simp]:
  "pg_cart_items (insert_orders now uid db) = pg_cart_items db"
  "pg_users (insert_orders now uid db) = pg_users db"
  "pg_products (insert_orders now uid db) = pg_products db"
  by (simp_all add: insert_orders_def Let_def)

lemma delete_cart_items_tables [simp]:
  "pg_orders (delete_cart_items uid db) = pg_orders db"
  "pg_users (delete_cart_items uid db) = pg_users db"
  "pg_products (delete_cart_items uid db) = pg_products db"
  "pg_cart_items (delete_cart_items uid db)
     = filter (\<lambda>c. pc_user_id c \<noteq> uid) (pg_cart_items db)"
  by (simp_all add: delete_cart_items_def)

lemma new_orders_of_user:
  "filter (\<lambda>ord. po_user_id ord = uid)
     (map (\<lambda>(k, c). \<lparr>po_id = k, po_user_id = pc_user_id c, po_product_id = pc_product_id c,
                        po_purchased_at = now\<rparr>)
        (enumerate n (filter (\<lambda>c. pc_user_id c = uid) cs)))
   = map (\<lambda>(k, c). \<lparr>po_id = k, po_user_id = pc_user_id c, po_product_id = pc_product_id c,
                        po_purchased_at = now\<rparr>)
        (enumerate n (filter (\<lambda>c. pc_user_id c = uid) cs))"
proof (rule filter_True, clarsimp)
  fix k c
  assume "(k, c) \<in> set (enumerate n (filter (\<lambda>c. pc_user_id c = uid) cs))"
  then have "c \<in> snd ` set (enumerate n (filter (\<lambda>c. pc_user_id c = uid) cs))"
    by force
  then have "c \<in> set (map snd (enumerate n (filter (\<lambda>c. pc_user_id c = uid) cs)))"
    by (simp only: set_map)
  then show "pc_user_id c = uid" by simp
qed

lemma cart_rows_of_user:
  "(k, c) \<in> set (enumerate n (filter (\<lambda>c. pc_user_id c = uid) cs)) \<Longrightarrow> pc_user_id c = uid"
proof -
  assume "(k, c) \<in> set (enumerate n (filter (\<lambda>c. pc_user_id c = uid) cs))"
  then have "c \<in> snd ` set (enumerate n (filter (\<lambda>c. pc_user_id c = uid) cs))"
    by force
  then have "c \<in> set (map snd (enumerate n (filter (\<lambda>c. pc_user_id c = uid) cs)))"
    by (simp only: set_map)
  then show "pc_user_id c = uid" by simp
qed

lemma checkout_committed:
  assumes "user_id request = Some uid" and "fault \<notin> {Some 0, Some 1, Some 2}"
  shows "checkout fault now request db
           = (Reply 200 (message_body ''Order placed''),
              delete_cart_items uid (insert_orders now uid db))"
  using assms by (simp add: checkout_def with_conn_def respond_def failed_def Let_def)

lemma checkout_rolled_back:
  assumes "user_id request = Some uid" and "fault \<in> {Some 0, Some 1, Some 2}"
  shows "fst (checkout fault now request db) = Uncaught (Psycopg2Error OperationalError)"
    and "pg_cart_items (snd (checkout fault now request db)) = pg_cart_items db"
    and "pg_orders (snd (checkout fault now request db)) = pg_orders db"
  using assms by (auto simp: checkout_def with_conn_def respond_def failed_def Let_def)

subsection \<open>Tokens and logins\<close>

text \<open>
  What the Flask server does on the paths where its libraries keep their contract: a login
  with a matching password issues a token for the row's id with an expiry eight hours
  ahead; \<^verbatim>\<open>require_auth\<close> accepts that token before the expiry and rejects it after,
  when the verifier returns what was signed until then and \<^verbatim>\<open>Expired\<close> afterwards; a
  login right after a signup finds the new row. A failed login with both fields present
  replies the same 401 whether the account exists or not, in both servers.
\<close>

lemma login_issues_token:
  assumes "json request ''email'' = Some email" and "json request ''password'' = Some password"
      and "filter (\<lambda>u. pu_email u = email) (pg_users db) = row # rest"
      and "passlib_verify L password (pu_password_hash row) = Some True"
      and "fault \<notin> {Some 0, Some 1}"
  shows "login L fault now request db
           = (Reply 200 (JObj
                [(''token'', JStr (jwt_encode L [''uid'' \<mapsto> pu_id row, ''exp'' \<mapsto> now + 28800]
                    (JWT_SECRET L))),
                 (''user'', JObj [(''id'', JNum (pu_id row)), (''email'', JStr email),
                    (''username'', JStr (pu_username row))])]), db)"
  using assms by (simp add: login_def with_conn_def respond_def failed_def)

lemma flask_token_round_trip:
  fixes L now uid
  defines "tok \<equiv> jwt_encode L [''uid'' \<mapsto> uid, ''exp'' \<mapsto> now + 28800] (JWT_SECRET L)"
  assumes valid: "\<And>t. t < now + 28800 \<Longrightarrow>
            jwt_decode L tok (JWT_SECRET L) t = Inr [''uid'' \<mapsto> uid, ''exp'' \<mapsto> now + 28800]"
      and expired: "\<And>t. now + 28800 < t \<Longrightarrow> jwt_decode L tok (JWT_SECRET L) t = Inl Expired"
      and "CHR '' '' \<notin> set tok"
      and "headers request ''Authorization'' = Some (''Bearer '' @ tok)"
  shows "credentials L now request = Inr uid"
    and "now + 28800 < t \<Longrightarrow>
           require_auth L t f request db = (Reply 401 (error_body ''Invalid token''), db)"
    and "t < now + 28800 \<Longrightarrow>
           require_auth L t f request db = f (request\<lparr>user_id := Some uid\<rparr>) db"
  using assms(4,5) valid [of now] valid [of t] expired [of t]
  by (simp_all add: require_auth_credentials credentials_bearer)

lemma flask_signup_then_login:
  assumes "truthy (json request ''email'') = Some email"
      and "truthy (json request ''password'') = Some password"
      and "json request ''username'' = Some username"
      and "email \<notin> set (map pu_email (pg_users db))"
      and "passlib_verify L password (passlib_hash L password salt) = Some True"
  shows "fst (signup L None salt request db)
           = Reply 200 (JObj [(''message'', JStr ''User created''), (''id'', JNum (pg_users_seq db))])"
    and "fst (login L None now request (snd (signup L None salt request db)))
           = Reply 200 (JObj
                [(''token'', JStr (jwt_encode L
                    [''uid'' \<mapsto> pg_users_seq db, ''exp'' \<mapsto> now + 28800] (JWT_SECRET L))),
                 (''user'', JObj [(''id'', JNum (pg_users_seq db)), (''email'', JStr email),
                    (''username'', JStr username)])])"
proof -
  have e: "json request ''email'' = Some email" and p: "json request ''password'' = Some password"
    using assms(1,2) by (auto simp: truthy_def split: option.splits list.splits)
  have none: "filter (\<lambda>u. pu_email u = email) (pg_users db) = []"
    using assms(4) by (auto simp: filter_empty_conv)
  let ?row = "\<lparr>pu_id = pg_users_seq db, pu_email = email, pu_username = username,
               pu_password_hash = passlib_hash L password salt\<rparr>"
  have s: "signup L None salt request db
             = (Reply 200 (JObj [(''message'', JStr ''User created''),
                                 (''id'', JNum (pg_users_seq db))]),
                db\<lparr>pg_users := pg_users db @ [?row],
                   pg_users_seq := Suc (pg_users_seq db)\<rparr>)"
    using assms(1,2,3,4) by (simp add: signup_def with_conn_def Let_def)
  show "fst (signup L None salt request db)
           = Reply 200 (JObj [(''message'', JStr ''User created''), (''id'', JNum (pg_users_seq db))])"
    by (simp add: s)
  have f: "filter (\<lambda>u. pu_email u = email)
             (pg_users (db\<lparr>pg_users := pg_users db @ [?row],
                           pg_users_seq := Suc (pg_users_seq db)\<rparr>)) = ?row # []"
    by (simp add: none)
  show "fst (login L None now request (snd (signup L None salt request db)))
           = Reply 200 (JObj
                [(''token'', JStr (jwt_encode L
                    [''uid'' \<mapsto> pg_users_seq db, ''exp'' \<mapsto> now + 28800] (JWT_SECRET L))),
                 (''user'', JObj [(''id'', JNum (pg_users_seq db)), (''email'', JStr email),
                    (''username'', JStr username)])])"
    using login_issues_token [OF e p f, of L None now] assms(5) by (simp add: s)
qed

lemma login_failures_same_reply:
  "truthy (body req ''email'') = Some email \<Longrightarrow> truthy (body req ''password'') = Some password \<Longrightarrow>
   \<not> dbfail \<Longrightarrow>
   (filter (\<lambda>u. sql_text_eq L (mu_email u) email) (my_users db) = []
    \<or> (\<exists>row rest. filter (\<lambda>u. sql_text_eq L (mu_email u) email) (my_users db) = row # rest
          \<and> bcryptjs_compare L password (mu_password row) \<noteq> Some True)) \<Longrightarrow>
   post_api_login L dbfail now db req = Reply 401 (error_body ''Invalid credentials.'')"
  "json request ''email'' = Some email' \<Longrightarrow> json request ''password'' = Some password' \<Longrightarrow>
   fault \<notin> {Some 0, Some 1} \<Longrightarrow>
   (filter (\<lambda>u. pu_email u = email') (pg_users pdb) = []
    \<or> (\<exists>row rest. filter (\<lambda>u. pu_email u = email') (pg_users pdb) = row # rest
          \<and> passlib_verify F password' (pu_password_hash row) = Some False)) \<Longrightarrow>
   login F fault now request pdb = (Reply 401 (error_body ''Invalid credentials''), pdb)"
  by (auto simp: post_api_login_def login_def with_conn_def respond_def failed_def
      split: option.splits bool.splits)

subsection \<open>Field names of the replies\<close>

lemma keys_scalars [simp]:
  "keys (opt_str v) = []" "keys (opt_num w) = []"
  "keys (error_body m) = [''error'']" "keys (message_body m) = [''message'']"
  by (simp_all add: opt_str_def opt_num_def error_body_def message_body_def split: option.splits)

lemma keys_rows:
  "set (keys (JArr (map f xs))) = (\<Union>x\<in>set xs. set (keys (f x)))"
  by simp

lemma keys_items [simp]:
  "keys (product_json p) = [''id'', ''title'', ''description'', ''category'', ''price'',
      ''image_url'', ''user_id'']"
  "keys (product_item r) = [''id'', ''title'', ''description'', ''category'', ''price'',
      ''image_url'', ''owner_id'']"
  "keys (listing_item r) = [''id'', ''title'', ''price'', ''category'', ''image_url'']"
  "keys (cart_item cp) = [''id'', ''title'', ''price'', ''image_url'']"
  "keys (order_item F row) = [''id'', ''title'', ''price'', ''image_url'', ''purchased_at'']"
  by (simp_all add: product_json_def product_item_def listing_item_def cart_item_def
      order_item_def split: prod.splits)

lemma delete_password [simp]:
  "delete_field ''password'' (user_fields u)
     = [(''id'', JNum (mu_id u)), (''email'', JStr (mu_email u)),
        (''username'', opt_str (mu_username u)), (''member_since'', JNum (mu_member_since u))]"
  by (simp add: delete_field_def user_fields_def)

lemma post_api_register_keys:
  "set (body_keys (fst (post_api_register L dbfail salt now db req))) \<subseteq> {''error'', ''message''}"
  by (simp add: post_api_register_def split: option.splits list.splits bool.splits prod.splits)


lemma post_api_login_keys:
  "set (body_keys (post_api_login L dbfail now db req)) \<subseteq> {''error'', ''message'', ''token''}"
  by (simp add: post_api_login_def JWT_SECRET_express_def
      split: option.splits list.splits bool.splits prod.splits)

lemma get_api_products_keys:
  "set (body_keys (get_api_products L dbfail db req))
     \<subseteq> {''error'', ''id'', ''title'', ''description'', ''category'', ''price'',
         ''image_url'', ''user_id''}"
  by (auto simp: get_api_products_def split: option.splits prod.splits)

lemma post_api_products_keys:
  "set (body_keys (fst (post_api_products dbfail db req))) \<subseteq> {''error'', ''message''}"
  by (simp add: post_api_products_def split: option.splits list.splits prod.splits)

lemma get_api_users_keys:
  "set (body_keys (get_api_users dbfail db req))
     \<subseteq> {''error'', ''id'', ''email'', ''username'', ''member_since''}"
  by (simp add: get_api_users_def split: option.splits list.splits)

lemma put_api_users_keys:
  "set (body_keys (fst (put_api_users L dbfail db req))) \<subseteq> {''error'', ''message''}"
  by (simp add: put_api_users_def split: option.splits list.splits)

lemma authMiddleware_rejects:
  "\<exists>m. authMiddleware L now req res next = res 401 (error_body m)"
  by (auto simp: authMiddleware_def JWT_SECRET_express_def split: option.splits)

lemma express_keys:
  "set (body_keys (fst (express L dbfail salt now r req db)))
     \<subseteq> {''error'', ''message'', ''token''}"
proof (cases r)
  case PostRegister
  then show ?thesis using post_api_register_keys [of L dbfail salt now db req] by (auto simp: express_def)
next
  case PostLogin
  then show ?thesis using post_api_login_keys [of L dbfail now db req] by (simp add: express_def)
next
  case GetProducts
  then show ?thesis
    using authMiddleware_rejects [of L now req "\<lambda>s b. (Reply s b, db)"
        "\<lambda>req'. (get_api_products L dbfail db req', db)"]
    by (auto simp: express_def)
next
  case PostProducts
  then show ?thesis
    using authMiddleware_rejects [of L now req "\<lambda>s b. (Reply s b, db)"
        "post_api_products dbfail db"]
    by (auto simp: express_def)
next
  case GetUser
  then show ?thesis
    using authMiddleware_rejects [of L now req "\<lambda>s b. (Reply s b, db)"
        "\<lambda>req'. (get_api_users dbfail db req', db)"]
    by (auto simp: express_def)
next
  case PutUser
  then show ?thesis
    using authMiddleware_rejects [of L now req "\<lambda>s b. (Reply s b, db)"
        "put_api_users L dbfail db"]
    by (auto simp: express_def)
qed

lemma signup_keys:
  "set (body_keys (fst (signup F fault salt request db)))
     \<subseteq> {''error'', ''message'', ''id''}"
  by (auto simp: signup_def with_conn_def respond_def failed_def Let_def
      split: option.splits list.splits bool.splits prod.splits sum.splits exn.splits)

lemma login_keys:
  "set (body_keys (fst (login F fault now request db)))
     \<subseteq> {''error'', ''token'', ''user'', ''id'', ''email'', ''username''}"
  by (auto simp: login_def with_conn_def respond_def failed_def Let_def
      split: option.splits list.splits bool.splits prod.splits sum.splits exn.splits)

lemma me_keys:
  "set (body_keys (fst (me fault request db)))
     \<subseteq> {''id'', ''email'', ''username''}"
  by (auto simp: me_def with_conn_def respond_def failed_def Let_def
      split: option.splits list.splits bool.splits prod.splits sum.splits exn.splits)

lemma update_me_keys:
  "set (body_keys (fst (update_me fault request db)))
     \<subseteq> {''user'', ''id'', ''email'', ''username''}"
  by (auto simp: update_me_def with_conn_def respond_def failed_def Let_def
      split: option.splits list.splits bool.splits prod.splits sum.splits exn.splits)

lemma list_products_keys:
  "set (body_keys (fst (list_products F fault request db)))
     \<subseteq> {''items'', ''id'', ''title'', ''description'', ''category'', ''price'', ''image_url'', ''owner_id''}"
  by (auto simp: list_products_def with_conn_def respond_def failed_def Let_def
      split: option.splits list.splits bool.splits prod.splits sum.splits exn.splits)

lemma create_product_keys:
  "set (body_keys (fst (create_product fault request db)))
     \<subseteq> {''id''}"
  by (auto simp: create_product_def with_conn_def respond_def failed_def Let_def
      split: option.splits list.splits bool.splits prod.splits sum.splits exn.splits)

lemma update_product_keys:
  "set (body_keys (fst (update_product fault pid request db)))
     \<subseteq> {''error'', ''message''}"
  by (auto simp: update_product_def with_conn_def respond_def failed_def Let_def
      split: option.splits list.splits bool.splits prod.splits sum.splits exn.splits)

lemma delete_product_keys:
  "set (body_keys (fst (delete_product fault pid request db)))
     \<subseteq> {''message''}"
  by (auto simp: delete_product_def with_conn_def respond_def failed_def Let_def
      split: option.splits list.splits bool.splits prod.splits sum.splits exn.splits)

lemma my_listings_keys:
  "set (body_keys (fst (my_listings fault request db)))
     \<subseteq> {''items'', ''id'', ''title'', ''price'', ''category'', ''image_url''}"
  by (auto simp: my_listings_def with_conn_def respond_def failed_def Let_def
      split: option.splits list.splits bool.splits prod.splits sum.splits exn.splits)

lemma get_cart_keys:
  "set (body_keys (fst (get_cart fault request db)))
     \<subseteq> {''items'', ''id'', ''title'', ''price'', ''image_url''}"
  by (auto simp: get_cart_def with_conn_def respond_def failed_def Let_def
      split: option.splits list.splits bool.splits prod.splits sum.splits exn.splits)

lemma add_cart_keys:
  "set (body_keys (fst (add_cart F fault request db)))
     \<subseteq> {''message''}"
  by (auto simp: add_cart_def with_conn_def respond_def failed_def Let_def
      split: option.splits list.splits bool.splits prod.splits sum.splits exn.splits)

lemma remove_cart_keys:
  "set (body_keys (fst (remove_cart fault item_id request db)))
     \<subseteq> {''message''}"
  by (auto simp: remove_cart_def with_conn_def respond_def failed_def Let_def
      split: option.splits list.splits bool.splits prod.splits sum.splits exn.splits)

lemma checkout_keys:
  "set (body_keys (fst (checkout fault now request db)))
     \<subseteq> {''message''}"
  by (auto simp: checkout_def with_conn_def respond_def failed_def Let_def
      split: option.splits list.splits bool.splits prod.splits sum.splits exn.splits)

lemma orders_keys:
  "set (body_keys (fst (orders F fault request db)))
     \<subseteq> {''items'', ''id'', ''title'', ''price'', ''image_url'', ''purchased_at''}"
  by (auto simp: orders_def with_conn_def respond_def failed_def Let_def
      split: option.splits list.splits bool.splits prod.splits sum.splits exn.splits)


lemma credentials_keys:
  "credentials F now request = Inl out \<Longrightarrow> set (body_keys out) \<subseteq> {''error''}"
  by (auto simp: credentials_def split: option.splits if_splits sum.splits)

lemma require_auth_keys:
  assumes "\<And>req'. set (body_keys (fst (f req' db))) \<subseteq> K" and "''error'' \<in> K"
  shows "set (body_keys (fst (require_auth F now f request db))) \<subseteq> K"
proof (cases "credentials F now request")
  case (Inl out)
  then show ?thesis
    using credentials_keys [OF Inl] assms(2) by (auto simp: require_auth_credentials)
next
  case (Inr uid)
  then show ?thesis using assms(1) by (simp add: require_auth_credentials)
qed

lemma flask_keys:
  "set (body_keys (fst (flask F fault salt now r request db))) \<subseteq> public_fields"
proof (cases r)
  case Signup
  have "set (body_keys (fst (flask F fault salt now r request db))) \<subseteq> public_fields"
    unfolding Signup flask_def flask_route.case
    by (rule subset_trans [OF signup_keys]) (simp add: public_fields_def)
  then show ?thesis .
next
  case Login
  have "set (body_keys (fst (flask F fault salt now r request db))) \<subseteq> public_fields"
    unfolding Login flask_def flask_route.case
    by (rule subset_trans [OF login_keys]) (simp add: public_fields_def)
  then show ?thesis .
next
  case Me
  have "set (body_keys (fst (require_auth F now (me fault) request db))) \<subseteq> public_fields"
  proof (rule require_auth_keys)
    show "set (body_keys (fst ((me fault) req' db))) \<subseteq> public_fields" for req'
      by (rule subset_trans [OF me_keys]) (simp add: public_fields_def)
    show "''error'' \<in> public_fields" by (simp add: public_fields_def)
  qed
  then show ?thesis unfolding Me flask_def flask_route.case .
next
  case UpdateMe
  have "set (body_keys (fst (require_auth F now (update_me fault) request db))) \<subseteq> public_fields"
  proof (rule require_auth_keys)
    show "set (body_keys (fst ((update_me fault) req' db))) \<subseteq> public_fields" for req'
      by (rule subset_trans [OF update_me_keys]) (simp add: public_fields_def)
    show "''error'' \<in> public_fields" by (simp add: public_fields_def)
  qed
  then show ?thesis unfolding UpdateMe flask_def flask_route.case .
next
  case ListProducts
  have "set (body_keys (fst (require_auth F now (list_products F fault) request db))) \<subseteq> public_fields"
  proof (rule require_auth_keys)
    show "set (body_keys (fst ((list_products F fault) req' db))) \<subseteq> public_fields" for req'
      by (rule subset_trans [OF list_products_keys]) (simp add: public_fields_def)
    show "''error'' \<in> public_fields" by (simp add: public_fields_def)
  qed
  then show ?thesis unfolding ListProducts flask_def flask_route.case .
next
  case CreateProduct
  have "set (body_keys (fst (require_auth F now (create_product fault) request db))) \<subseteq> public_fields"
  proof (rule require_auth_keys)
    show "set (body_keys (fst ((create_product fault) req' db))) \<subseteq> public_fields" for req'
      by (rule subset_trans [OF create_product_keys]) (simp add: public_fields_def)
    show "''error'' \<in> public_fields" by (simp add: public_fields_def)
  qed
  then show ?thesis unfolding CreateProduct flask_def flask_route.case .
next
  case (UpdateProduct pid)
  have "set (body_keys (fst (require_auth F now (update_product fault pid) request db))) \<subseteq> public_fields"
  proof (rule require_auth_keys)
    show "set (body_keys (fst ((update_product fault pid) req' db))) \<subseteq> public_fields" for req'
      by (rule subset_trans [OF update_product_keys]) (simp add: public_fields_def)
    show "''error'' \<in> public_fields" by (simp add: public_fields_def)
  qed
  then show ?thesis unfolding UpdateProduct flask_def flask_route.case .
next
  case (DeleteProduct pid)
  have "set (body_keys (fst (require_auth F now (delete_product fault pid) request db))) \<subseteq> public_fields"
  proof (rule require_auth_keys)
    show "set (body_keys (fst ((delete_product fault pid) req' db))) \<subseteq> public_fields" for req'
      by (rule subset_trans [OF delete_product_keys]) (simp add: public_fields_def)
    show "''error'' \<in> public_fields" by (simp add: public_fields_def)
  qed
  then show ?thesis unfolding DeleteProduct flask_def flask_route.case .
next
  case MyListings
  have "set (body_keys (fst (require_auth F now (my_listings fault) request db))) \<subseteq> public_fields"
  proof (rule require_auth_keys)
    show "set (body_keys (fst ((my_listings fault) req' db))) \<subseteq> public_fields" for req'
      by (rule subset_trans [OF my_listings_keys]) (simp add: public_fields_def)
    show "''error'' \<in> public_fields" by (simp add: public_fields_def)
  qed
  then show ?thesis unfolding MyListings flask_def flask_route.case .
next
  case GetCart
  have "set (body_keys (fst (require_auth F now (get_cart fault) request db))) \<subseteq> public_fields"
  proof (rule require_auth_keys)
    show "set (body_keys (fst ((get_cart fault) req' db))) \<subseteq> public_fields" for req'
      by (rule subset_trans [OF get_cart_keys]) (simp add: public_fields_def)
    show "''error'' \<in> public_fields" by (simp add: public_fields_def)
  qed
  then show ?thesis unfolding GetCart flask_def flask_route.case .
next
  case AddCart
  have "set (body_keys (fst (require_auth F now (add_cart F fault) request db))) \<subseteq> public_fields"
  proof (rule require_auth_keys)
    show "set (body_keys (fst ((add_cart F fault) req' db))) \<subseteq> public_fields" for req'
      by (rule subset_trans [OF add_cart_keys]) (simp add: public_fields_def)
    show "''error'' \<in> public_fields" by (simp add: public_fields_def)
  qed
  then show ?thesis unfolding AddCart flask_def flask_route.case .
next
  case (RemoveCart item_id)
  have "set (body_keys (fst (require_auth F now (remove_cart fault item_id) request db))) \<subseteq> public_fields"
  proof (rule require_auth_keys)
    show "set (body_keys (fst ((remove_cart fault item_id) req' db))) \<subseteq> public_fields" for req'
      by (rule subset_trans [OF remove_cart_keys]) (simp add: public_fields_def)
    show "''error'' \<in> public_fields" by (simp add: public_fields_def)
  qed
  then show ?thesis unfolding RemoveCart flask_def flask_route.case .
next
  case Checkout
  have "set (body_keys (fst (require_auth F now (checkout fault now) request db))) \<subseteq> public_fields"
  proof (rule require_auth_keys)
    show "set (body_keys (fst ((checkout fault now) req' db))) \<subseteq> public_fields" for req'
      by (rule subset_trans [OF checkout_keys]) (simp add: public_fields_def)
    show "''error'' \<in> public_fields" by (simp add: public_fields_def)
  qed
  then show ?thesis unfolding Checkout flask_def flask_route.case .
next
  case Orders
  have "set (body_keys (fst (require_auth F now (orders F fault) request db))) \<subseteq> public_fields"
  proof (rule require_auth_keys)
    show "set (body_keys (fst ((orders F fault) req' db))) \<subseteq> public_fields" for req'
      by (rule subset_trans [OF orders_keys]) (simp add: public_fields_def)
    show "''error'' \<in> public_fields" by (simp add: public_fields_def)
  qed
  then show ?thesis unfolding Orders flask_def flask_route.case .
qed

subsection \<open>The password column along a run\<close>

lemma rollback_seq [simp]: "pg_users_seq (rollback db dbt) = pg_users_seq dbt"
  by (simp add: rollback_def)

lemma require_auth_frame:
  assumes "\<And>req'. P (snd (f req' db))" and "P db"
  shows "P (snd (require_auth F now f request db))"
  using assms by (simp add: require_auth_credentials split: sum.splits)

lemma list_products_users:
  "pg_users (snd (list_products F fault request db)) = pg_users db \<and> pg_users_seq (snd (list_products F fault request db)) = pg_users_seq db"
  by (simp add: list_products_def with_conn_def respond_def failed_def Let_def insert_orders_def
      delete_cart_items_def
      split: option.splits list.splits bool.splits prod.splits sum.splits)

lemma create_product_users:
  "pg_users (snd (create_product fault request db)) = pg_users db \<and> pg_users_seq (snd (create_product fault request db)) = pg_users_seq db"
  by (simp add: create_product_def with_conn_def respond_def failed_def Let_def insert_orders_def
      delete_cart_items_def
      split: option.splits list.splits bool.splits prod.splits sum.splits)

lemma update_product_users:
  "pg_users (snd (update_product fault pid request db)) = pg_users db \<and> pg_users_seq (snd (update_product fault pid request db)) = pg_users_seq db"
  by (simp add: update_product_def with_conn_def respond_def failed_def Let_def insert_orders_def
      delete_cart_items_def
      split: option.splits list.splits bool.splits prod.splits sum.splits)

lemma delete_product_users:
  "pg_users (snd (delete_product fault pid request db)) = pg_users db \<and> pg_users_seq (snd (delete_product fault pid request db)) = pg_users_seq db"
  by (simp add: delete_product_def with_conn_def respond_def failed_def Let_def insert_orders_def
      delete_cart_items_def
      split: option.splits list.splits bool.splits prod.splits sum.splits)

lemma my_listings_users:
  "pg_users (snd (my_listings fault request db)) = pg_users db \<and> pg_users_seq (snd (my_listings fault request db)) = pg_users_seq db"
  by (simp add: my_listings_def with_conn_def respond_def failed_def Let_def insert_orders_def
      delete_cart_items_def
      split: option.splits list.splits bool.splits prod.splits sum.splits)

lemma get_cart_users:
  "pg_users (snd (get_cart fault request db)) = pg_users db \<and> pg_users_seq (snd (get_cart fault request db)) = pg_users_seq db"
  by (simp add: get_cart_def with_conn_def respond_def failed_def Let_def insert_orders_def
      delete_cart_items_def
      split: option.splits list.splits bool.splits prod.splits sum.splits)

lemma add_cart_users:
  "pg_users (snd (add_cart F fault request db)) = pg_users db \<and> pg_users_seq (snd (add_cart F fault request db)) = pg_users_seq db"
  by (simp add: add_cart_def with_conn_def respond_def failed_def Let_def insert_orders_def
      delete_cart_items_def
      split: option.splits list.splits bool.splits prod.splits sum.splits)

lemma remove_cart_users:
  "pg_users (snd (remove_cart fault item_id request db)) = pg_users db \<and> pg_users_seq (snd (remove_cart fault item_id request db)) = pg_users_seq db"
  by (simp add: remove_cart_def with_conn_def respond_def failed_def Let_def insert_orders_def
      delete_cart_items_def
      split: option.splits list.splits bool.splits prod.splits sum.splits)

lemma checkout_users:
  "pg_users (snd (checkout fault now request db)) = pg_users db \<and> pg_users_seq (snd (checkout fault now request db)) = pg_users_seq db"
  by (simp add: checkout_def with_conn_def respond_def failed_def Let_def insert_orders_def
      delete_cart_items_def
      split: option.splits list.splits bool.splits prod.splits sum.splits)

lemma orders_users:
  "pg_users (snd (orders F fault request db)) = pg_users db \<and> pg_users_seq (snd (orders F fault request db)) = pg_users_seq db"
  by (simp add: orders_def with_conn_def respond_def failed_def Let_def insert_orders_def
      delete_cart_items_def
      split: option.splits list.splits bool.splits prod.splits sum.splits)

lemma me_users:
  "pg_users (snd (me fault request db)) = pg_users db \<and> pg_users_seq (snd (me fault request db)) = pg_users_seq db"
  by (simp add: me_def with_conn_def respond_def failed_def Let_def insert_orders_def
      delete_cart_items_def
      split: option.splits list.splits bool.splits prod.splits sum.splits)

lemma login_users:
  "pg_users (snd (login F fault now request db)) = pg_users db \<and> pg_users_seq (snd (login F fault now request db)) = pg_users_seq db"
  by (simp add: login_def with_conn_def respond_def failed_def Let_def insert_orders_def
      delete_cart_items_def
      split: option.splits list.splits bool.splits prod.splits sum.splits)

lemma update_me_users:
  "stored (snd (update_me fault request db)) = stored db
   \<and> pg_users_seq (snd (update_me fault request db)) = pg_users_seq db"
  by (simp add: update_me_def stored_def with_conn_def respond_def failed_def Let_def comp_def
      split: option.splits list.splits bool.splits prod.splits sum.splits)

lemma signup_users:
  "(stored (snd (signup F fault salt request db)) = stored db
      \<and> pg_users_seq db \<le> pg_users_seq (snd (signup F fault salt request db))
      \<and> (\<forall>b. fst (signup F fault salt request db) \<noteq> Reply 200 b))
   \<or> (\<exists>pw. json request ''password'' = Some pw
        \<and> stored (snd (signup F fault salt request db))
            = stored db @ [(pg_users_seq db, passlib_hash F pw salt)]
        \<and> pg_users_seq (snd (signup F fault salt request db)) = Suc (pg_users_seq db))"
  by (simp add: signup_def stored_def with_conn_def failed_def truthy_def Let_def
      split: option.splits list.splits)

lemma flask_step:
  "(stored (snd (flask F fault salt now r request db)) = stored db
      \<and> pg_users_seq db \<le> pg_users_seq (snd (flask F fault salt now r request db))
      \<and> (r = Signup \<longrightarrow> (\<forall>b. fst (flask F fault salt now r request db) \<noteq> Reply 200 b)))
   \<or> (\<exists>pw. r = Signup \<and> json request ''password'' = Some pw
        \<and> stored (snd (flask F fault salt now r request db))
            = stored db @ [(pg_users_seq db, passlib_hash F pw salt)]
        \<and> pg_users_seq (snd (flask F fault salt now r request db)) = Suc (pg_users_seq db))"
proof (cases r)
  case Signup
  then show ?thesis using signup_users [of F fault salt request db] by (simp add: flask_def)
next
  case Login
  then show ?thesis using login_users [of F fault now request db]
    by (simp add: flask_def stored_def)
next
  case UpdateMe
  have "stored (snd (require_auth F now (update_me fault) request db)) = stored db
      \<and> pg_users_seq (snd (require_auth F now (update_me fault) request db)) = pg_users_seq db"
    by (rule require_auth_frame) (simp_all add: update_me_users)
  then show ?thesis using UpdateMe by (simp add: flask_def)
next
  case Me
  have "pg_users (snd (require_auth F now (me fault) request db)) = pg_users db
      \<and> pg_users_seq (snd (require_auth F now (me fault) request db)) = pg_users_seq db"
    by (rule require_auth_frame) (simp_all add: me_users)
  then show ?thesis using Me by (simp add: flask_def stored_def)
next
  case ListProducts
  have "pg_users (snd (require_auth F now (list_products F fault) request db)) = pg_users db
      \<and> pg_users_seq (snd (require_auth F now (list_products F fault) request db)) = pg_users_seq db"
    by (rule require_auth_frame) (simp_all add: list_products_users)
  then show ?thesis using ListProducts by (simp add: flask_def stored_def)
next
  case CreateProduct
  have "pg_users (snd (require_auth F now (create_product fault) request db)) = pg_users db
      \<and> pg_users_seq (snd (require_auth F now (create_product fault) request db)) = pg_users_seq db"
    by (rule require_auth_frame) (simp_all add: create_product_users)
  then show ?thesis using CreateProduct by (simp add: flask_def stored_def)
next
  case (UpdateProduct pid)
  have "pg_users (snd (require_auth F now (update_product fault pid) request db)) = pg_users db
      \<and> pg_users_seq (snd (require_auth F now (update_product fault pid) request db)) = pg_users_seq db"
    by (rule require_auth_frame) (simp_all add: update_product_users)
  then show ?thesis using UpdateProduct by (simp add: flask_def stored_def)
next
  case (DeleteProduct pid)
  have "pg_users (snd (require_auth F now (delete_product fault pid) request db)) = pg_users db
      \<and> pg_users_seq (snd (require_auth F now (delete_product fault pid) request db)) = pg_users_seq db"
    by (rule require_auth_frame) (simp_all add: delete_product_users)
  then show ?thesis using DeleteProduct by (simp add: flask_def stored_def)
next
  case MyListings
  have "pg_users (snd (require_auth F now (my_listings fault) request db)) = pg_users db
      \<and> pg_users_seq (snd (require_auth F now (my_listings fault) request db)) = pg_users_seq db"
    by (rule require_auth_frame) (simp_all add: my_listings_users)
  then show ?thesis using MyListings by (simp add: flask_def stored_def)
next
  case GetCart
  have "pg_users (snd (require_auth F now (get_cart fault) request db)) = pg_users db
      \<and> pg_users_seq (snd (require_auth F now (get_cart fault) request db)) = pg_users_seq db"
    by (rule require_auth_frame) (simp_all add: get_cart_users)
  then show ?thesis using GetCart by (simp add: flask_def stored_def)
next
  case AddCart
  have "pg_users (snd (require_auth F now (add_cart F fault) request db)) = pg_users db
      \<and> pg_users_seq (snd (require_auth F now (add_cart F fault) request db)) = pg_users_seq db"
    by (rule require_auth_frame) (simp_all add: add_cart_users)
  then show ?thesis using AddCart by (simp add: flask_def stored_def)
next
  case (RemoveCart item_id)
  have "pg_users (snd (require_auth F now (remove_cart fault item_id) request db)) = pg_users db
      \<and> pg_users_seq (snd (require_auth F now (remove_cart fault item_id) request db)) = pg_users_seq db"
    by (rule require_auth_frame) (simp_all add: remove_cart_users)
  then show ?thesis using RemoveCart by (simp add: flask_def stored_def)
next
  case Checkout
  have "pg_users (snd (require_auth F now (checkout fault now) request db)) = pg_users db
      \<and> pg_users_seq (snd (require_auth F now (checkout fault now) request db)) = pg_users_seq db"
    by (rule require_auth_frame) (simp_all add: checkout_users)
  then show ?thesis using Checkout by (simp add: flask_def stored_def)
next
  case Orders
  have "pg_users (snd (require_auth F now (orders F fault) request db)) = pg_users db
      \<and> pg_users_seq (snd (require_auth F now (orders F fault) request db)) = pg_users_seq db"
    by (rule require_auth_frame) (simp_all add: orders_users)
  then show ?thesis using Orders by (simp add: flask_def stored_def)
qed

lemma flask_run_stored:
  assumes "\<forall>p\<in>set (stored db). fst p < pg_users_seq db"
  shows "set (stored db) \<subseteq> set (stored (flask_run F cs db))
         \<and> (\<forall>p\<in>set (stored (flask_run F cs db)). p \<in> set (stored db) \<or> pg_users_seq db \<le> fst p)"
  using assms
proof (induction cs arbitrary: db)
  case Nil
  then show ?case by simp
next
  case (Cons c cs)
  obtain fault salt now r request where c: "c = (fault, salt, now, r, request)"
    by (cases c) auto
  let ?db = "snd (flask F fault salt now r request db)"
  have fresh: "a < pg_users_seq db" if "(a, b) \<in> set (stored db)" for a b
    using Cons.prems that by force
  have step: "set (stored db) \<subseteq> set (stored ?db)
      \<and> (\<forall>p\<in>set (stored ?db). p \<in> set (stored db) \<or> pg_users_seq db \<le> fst p)
      \<and> pg_users_seq db \<le> pg_users_seq ?db
      \<and> (\<forall>p\<in>set (stored ?db). fst p < pg_users_seq ?db)"
    using flask_step [of F fault salt now r request db]
  proof (elim disjE conjE exE)
    assume "stored ?db = stored db" "pg_users_seq db \<le> pg_users_seq ?db"
    then show ?thesis using fresh by (fastforce intro: less_le_trans)
  next
    fix pw
    assume "stored ?db = stored db @ [(pg_users_seq db, passlib_hash F pw salt)]"
      "pg_users_seq ?db = Suc (pg_users_seq db)"
    then show ?thesis using fresh by (fastforce intro: less_SucI)
  qed
  then have "set (stored ?db) \<subseteq> set (stored (flask_run F cs ?db))
         \<and> (\<forall>p\<in>set (stored (flask_run F cs ?db)).
               p \<in> set (stored ?db) \<or> pg_users_seq ?db \<le> fst p)"
    using Cons.IH [of ?db] by blast
  with step show ?case unfolding c flask_run.simps by fastforce
qed

lemma express_guarded:
  "r \<in> {GetProducts, PostProducts, GetUser, PutUser} \<Longrightarrow>
   \<exists>m. express L dbfail salt now r req db = (Reply 401 (error_body m), db)"
  using authMiddleware_rejects [of L now req "\<lambda>s b. (Reply s b, db)"]
  by (auto simp: express_def)

lemma express_handlers_stored:
  "my_stored (snd (put_api_users L dbfail db req)) = my_stored db"
  "my_users (snd (post_api_products dbfail db req)) = my_users db"
  by (simp_all add: put_api_users_def post_api_products_def my_stored_def comp_def
      split: option.splits list.splits prod.splits)

lemma register_stored:
  "(my_stored (snd (post_api_register L dbfail salt now db req)) = my_stored db
      \<and> my_users_auto (snd (post_api_register L dbfail salt now db req)) = my_users_auto db
      \<and> (\<forall>b. fst (post_api_register L dbfail salt now db req) \<noteq> Reply 201 b))
   \<or> (\<exists>pw h. body req ''password'' = Some pw \<and> bcryptjs_hash L pw 10 salt = Some h
        \<and> my_stored (snd (post_api_register L dbfail salt now db req))
            = my_stored db @ [(my_users_auto db, h)]
        \<and> my_users_auto (snd (post_api_register L dbfail salt now db req))
            = Suc (my_users_auto db))"
  by (simp add: post_api_register_def my_stored_def truthy_def error_body_def
      split: option.splits list.splits)

lemma express_step:
  "(my_stored (snd (express L dbfail salt now r req db)) = my_stored db
      \<and> my_users_auto (snd (express L dbfail salt now r req db)) = my_users_auto db
      \<and> (r = PostRegister \<longrightarrow> (\<forall>b. fst (express L dbfail salt now r req db) \<noteq> Reply 201 b)))
   \<or> (\<exists>pw h. r = PostRegister \<and> body req ''password'' = Some pw
        \<and> bcryptjs_hash L pw 10 salt = Some h
        \<and> my_stored (snd (express L dbfail salt now r req db))
            = my_stored db @ [(my_users_auto db, h)]
        \<and> my_users_auto (snd (express L dbfail salt now r req db)) = Suc (my_users_auto db))"
proof (cases "r \<in> {GetProducts, PostProducts, GetUser, PutUser}")
  case True
  then show ?thesis using express_guarded [OF True, of L dbfail salt now req db] by auto
next
  case False
  then consider "r = PostRegister" | "r = PostLogin" by (cases r) auto
  then show ?thesis
  proof cases
    case 1
    then show ?thesis using register_stored [of L dbfail salt now db req]
      by (simp add: express_def)
  next
    case 2
    then show ?thesis by (simp add: express_def)
  qed
qed

lemma express_run_stored:
  assumes "\<forall>p\<in>set (my_stored db). fst p < my_users_auto db"
  shows "set (my_stored db) \<subseteq> set (my_stored (express_run L cs db))
         \<and> (\<forall>p\<in>set (my_stored (express_run L cs db)).
               p \<in> set (my_stored db) \<or> my_users_auto db \<le> fst p)"
  using assms
proof (induction cs arbitrary: db)
  case Nil
  then show ?case by simp
next
  case (Cons c cs)
  obtain dbfail salt now r req where c: "c = (dbfail, salt, now, r, req)"
    by (cases c) auto
  let ?db = "snd (express L dbfail salt now r req db)"
  have fresh: "a < my_users_auto db" if "(a, b) \<in> set (my_stored db)" for a b
    using Cons.prems that by force
  have step: "set (my_stored db) \<subseteq> set (my_stored ?db)
      \<and> (\<forall>p\<in>set (my_stored ?db). p \<in> set (my_stored db) \<or> my_users_auto db \<le> fst p)
      \<and> my_users_auto db \<le> my_users_auto ?db
      \<and> (\<forall>p\<in>set (my_stored ?db). fst p < my_users_auto ?db)"
    using express_step [of L dbfail salt now r req db]
  proof (elim disjE conjE exE)
    assume "my_stored ?db = my_stored db" "my_users_auto ?db = my_users_auto db"
    then show ?thesis using fresh by fastforce
  next
    fix pw h
    assume "my_stored ?db = my_stored db @ [(my_users_auto db, h)]"
      "my_users_auto ?db = Suc (my_users_auto db)"
    then show ?thesis using fresh by (fastforce intro: less_SucI)
  qed
  then have "set (my_stored ?db) \<subseteq> set (my_stored (express_run L cs ?db))
         \<and> (\<forall>p\<in>set (my_stored (express_run L cs ?db)).
               p \<in> set (my_stored ?db) \<or> my_users_auto ?db \<le> fst p)"
    using Cons.IH [of ?db] by blast
  with step show ?case unfolding c express_run.simps by fastforce
qed

lemma express_password_kept:
  assumes fresh: "\<forall>p\<in>set (my_stored db). fst p < my_users_auto db"
      and reg: "fst (post_api_register L dbfail salt now db req) = Reply 201 b"
      and pw: "body req ''password'' = Some pw"
      and h: "bcryptjs_hash L pw 10 salt = Some h"
  shows "(my_users_auto db, h)
           \<in> set (my_stored (express_run L cs (snd (post_api_register L dbfail salt now db req))))"
    and "(my_users_auto db, h')
           \<in> set (my_stored (express_run L cs (snd (post_api_register L dbfail salt now db req))))
         \<Longrightarrow> h' = h"
proof -
  let ?db = "snd (post_api_register L dbfail salt now db req)"
  have st: "my_stored ?db = my_stored db @ [(my_users_auto db, h)]"
    and au: "my_users_auto ?db = Suc (my_users_auto db)"
    using register_stored [of L dbfail salt now db req] reg pw h by auto
  have fresh': "\<forall>p\<in>set (my_stored ?db). fst p < my_users_auto ?db"
    using fresh st au by (fastforce intro: less_SucI)
  note run = express_run_stored [OF fresh', of L cs]
  show "(my_users_auto db, h) \<in> set (my_stored (express_run L cs ?db))"
    using run st by auto
  assume "(my_users_auto db, h') \<in> set (my_stored (express_run L cs ?db))"
  then have "(my_users_auto db, h') \<in> set (my_stored ?db) \<or> my_users_auto ?db \<le> my_users_auto db"
    using run by fastforce
  then show "h' = h" using st au fresh by fastforce
qed

lemma flask_password_kept:
  assumes fresh: "\<forall>p\<in>set (stored db). fst p < pg_users_seq db"
      and reg: "fst (signup F fault salt request db) = Reply 200 b"
      and pw: "json request ''password'' = Some pw"
  shows "(pg_users_seq db, passlib_hash F pw salt)
           \<in> set (stored (flask_run F cs (snd (signup F fault salt request db))))"
    and "(pg_users_seq db, h')
           \<in> set (stored (flask_run F cs (snd (signup F fault salt request db))))
         \<Longrightarrow> h' = passlib_hash F pw salt"
proof -
  let ?db = "snd (signup F fault salt request db)"
  have st: "stored ?db = stored db @ [(pg_users_seq db, passlib_hash F pw salt)]"
    and au: "pg_users_seq ?db = Suc (pg_users_seq db)"
    using signup_users [of F fault salt request db] reg pw by auto
  have fresh': "\<forall>p\<in>set (stored ?db). fst p < pg_users_seq ?db"
    using fresh st au by (fastforce intro: less_SucI)
  note run = flask_run_stored [OF fresh', of F cs]
  show "(pg_users_seq db, passlib_hash F pw salt) \<in> set (stored (flask_run F cs ?db))"
    using run st by auto
  assume "(pg_users_seq db, h') \<in> set (stored (flask_run F cs ?db))"
  then have "(pg_users_seq db, h') \<in> set (stored ?db) \<or> pg_users_seq ?db \<le> pg_users_seq db"
    using run by fastforce
  then show "h' = passlib_hash F pw salt" using st au fresh by fastforce
qed

lemma secret_fields:
  "k \<in> {''password'', ''password_hash''} \<Longrightarrow> k \<notin> public_fields"
  by (auto simp: public_fields_def)

lemma express_public:
  "set (body_keys (fst (express L dbfail salt now r req db))) \<subseteq> public_fields"
  "set (body_keys (get_api_products L dbfail db req)) \<subseteq> public_fields"
  "set (body_keys (fst (post_api_products dbfail db req))) \<subseteq> public_fields"
  "set (body_keys (get_api_users dbfail db req)) \<subseteq> public_fields"
  "set (body_keys (fst (put_api_users L dbfail db req))) \<subseteq> public_fields"
  subgoal by (rule subset_trans [OF express_keys]) (simp add: public_fields_def)
  subgoal by (rule subset_trans [OF get_api_products_keys]) (simp add: public_fields_def)
  subgoal by (rule subset_trans [OF post_api_products_keys]) (simp add: public_fields_def)
  subgoal by (rule subset_trans [OF get_api_users_keys]) (simp add: public_fields_def)
  subgoal by (rule subset_trans [OF put_api_users_keys]) (simp add: public_fields_def)
  done

subsection \<open>The reference instances\<close>

lemma ref_tokens:
  "now < 28800 \<Longrightarrow> credentials ref_flask_lib now (bearer_request ''bob'') = Inr 2"
  "now < 28800 \<Longrightarrow> credentials ref_flask_lib now (bearer_request ''ana'') = Inr 1"
  "now < 28800 \<Longrightarrow> credentials ref_flask_lib now (bearer_request ''bob''\<lparr>json := d\<rparr>) = Inr 2"
  "now < 28800 \<Longrightarrow> credentials ref_flask_lib now (bearer_request ''ana''\<lparr>json := d\<rparr>) = Inr 1"
  "jwt_decode ref_flask_lib ''junk'' (JWT_SECRET ref_flask_lib) now = Inl Malformed"
  "headers (bearer_request tok) ''Authorization'' = Some (''Bearer '' @ tok)"
  "headers anonymous_request ''Authorization'' = None"
  "json (bearer_request tok\<lparr>json := d\<rparr>) = d"
  by (simp_all add: credentials_def bearer_request_def anonymous_request_def ref_flask_lib_def
      JWT_SECRET_def startswith_def index_def)

lemma ref_tables:
  "pg_products ref_pg_db = [pg_lamp]" "pp_id pg_lamp = 1" "pp_owner_id pg_lamp = 1"
  "pg_cart_items ref_pg_db = [bobs_item]" "pc_user_id bobs_item = 2"
  "pc_product_id bobs_item = 1" "pg_orders_seq ref_pg_db = 1"
  "pg_orders ref_pg_db = []" "pg_users ref_pg_db = [pg_ana, pg_bob]"
  by (simp_all add: ref_pg_db_def pg_lamp_def bobs_item_def)


lemma ref_signups:
  "fst (post_api_register ref_express_lib False 0 0 ref_my_db (empty_request\<lparr>body := carol\<rparr>))
     = Reply 201 (message_body ''Registration successful!'')"
  "fst (signup ref_flask_lib None 0 (anonymous_request\<lparr>json := carol\<rparr>) ref_pg_db)
     = Reply 200 (JObj [(''message'', JStr ''User created''), (''id'', JNum 3)])"
  "carol ''password'' = Some ''secret3''"
  "bcryptjs_hash ref_express_lib ''secret3'' 10 0 = Some ''$2a$secret3''"
  "passlib_hash ref_flask_lib ''secret3'' 0 = ''$2b$secret3''"
  "\<forall>p\<in>set (my_stored ref_my_db). fst p < 2"
  "\<forall>p\<in>set (stored ref_pg_db). fst p < 3"
  "my_users_auto ref_my_db = 2" "pg_users_seq ref_pg_db = 3"
  by (simp_all add: post_api_register_def signup_def with_conn_def failed_def truthy_def carol_def
      empty_request_def anonymous_request_def ref_my_db_def ana_def ref_pg_db_def pg_ana_def
      pg_bob_def ref_express_lib_def ref_flask_lib_def my_stored_def stored_def)

text \<open>
  The reference signer and verifier keep the contract that \<open>flask_token_round_trip\<close>
  asks for: the login of a registered user at time 0 issues the token \<^verbatim>\<open>ana\<close>, which
  \<^verbatim>\<open>require_auth\<close> accepts before the eight hours are over and rejects after.
\<close>

lemma ref_round_trip:
  "fst (login ref_flask_lib None 0
          (anonymous_request\<lparr>json := [''email'' \<mapsto> ''a@x.com'', ''password'' \<mapsto> ''secret1'']\<rparr>)
          ref_pg_db)
     = Reply 200 (JObj [(''token'', JStr ''ana''),
         (''user'', JObj [(''id'', JNum 1), (''email'', JStr ''a@x.com''),
            (''username'', JStr ''ana'')])])"
  "require_auth ref_flask_lib 100 f (bearer_request ''ana'') db
     = f (bearer_request ''ana''\<lparr>user_id := Some 1\<rparr>) db"
  "require_auth ref_flask_lib 28801 f (bearer_request ''ana'') db
     = (Reply 401 (error_body ''Invalid token''), db)"
proof -
  show "fst (login ref_flask_lib None 0
          (anonymous_request\<lparr>json := [''email'' \<mapsto> ''a@x.com'', ''password'' \<mapsto> ''secret1'']\<rparr>)
          ref_pg_db)
     = Reply 200 (JObj [(''token'', JStr ''ana''),
         (''user'', JObj [(''id'', JNum 1), (''email'', JStr ''a@x.com''),
            (''username'', JStr ''ana'')])])"
    using login_issues_token [where L = ref_flask_lib and fault = None and now = 0
        and request = "anonymous_request\<lparr>json := [''email'' \<mapsto> ''a@x.com'',
            ''password'' \<mapsto> ''secret1'']\<rparr>"
        and db = ref_pg_db and email = "''a@x.com''" and password = "''secret1''"
        and row = pg_ana and rest = "[]"]
    by (simp add: ref_pg_db_def pg_ana_def pg_bob_def ref_flask_lib_def opt_str_def)
  have tok: "jwt_encode ref_flask_lib [''uid'' \<mapsto> 1, ''exp'' \<mapsto> 0 + 28800]
               (JWT_SECRET ref_flask_lib) = ''ana''"
    by (simp add: ref_flask_lib_def)
  note rt = flask_token_round_trip [where L = ref_flask_lib and now = 0 and uid = 1
      and request = "bearer_request ''ana''", unfolded tok]
  have valid: "\<And>t. t < 0 + 28800 \<Longrightarrow>
      jwt_decode ref_flask_lib ''ana'' (JWT_SECRET ref_flask_lib) t
        = Inr [''uid'' \<mapsto> 1, ''exp'' \<mapsto> 0 + 28800]"
    and expired: "\<And>t. 0 + 28800 < t \<Longrightarrow>
      jwt_decode ref_flask_lib ''ana'' (JWT_SECRET ref_flask_lib) t = Inl Expired"
    by (simp_all add: ref_flask_lib_def JWT_SECRET_def)
  show "require_auth ref_flask_lib 100 f (bearer_request ''ana'') db
     = f (bearer_request ''ana''\<lparr>user_id := Some 1\<rparr>) db"
    by (rule rt(3) [OF valid expired]) (simp_all add: bearer_request_def)
  show "require_auth ref_flask_lib 28801 f (bearer_request ''ana'') db
     = (Reply 401 (error_body ''Invalid token''), db)"
    by (rule rt(2) [OF valid expired]) (simp_all add: bearer_request_def)
qed

section \<open>Properties of the Express server\<close>

text \<open>
  C9. \<^verbatim>\<open>JWT_SECRET\<close> has no binding in the Express program. Hence \<^verbatim>\<open>authMiddleware\<close>
  answers every request with 401 and never calls the handler: without a token by the
  first branch, with any token because the verification step throws and the \<^verbatim>\<open>catch\<close>
  replies. Hence no login replies 200, and a login with an existing email and a matching
  password ends in the uncaught ReferenceError instead of a token.
\<close>

theorem express_jwt_secret_undefined:
  "JWT_SECRET_express = None
   \<and> (authMiddleware L now req res next = res 401 (error_body ''Authentication failed: No token provided.'')
      \<or> authMiddleware L now req res next = res 401 (error_body ''Authentication failed: Invalid token.''))
   \<and> (headers_authorization req = Some a \<longrightarrow> index (split CHR '' '' a) 1 = Some (c # cs) \<longrightarrow>
        authMiddleware L now req res next = res 401 (error_body ''Authentication failed: Invalid token.''))
   \<and> (\<forall>b. post_api_login L dbfail now db req \<noteq> Reply 200 b)
   \<and> (truthy (body req ''email'') = Some email \<longrightarrow> truthy (body req ''password'') = Some password \<longrightarrow>
        \<not> dbfail \<longrightarrow> filter (\<lambda>u. sql_text_eq L (mu_email u) email) (my_users db) = row # rest \<longrightarrow>
        bcryptjs_compare L password (mu_password row) = Some True \<longrightarrow>
        post_api_login L dbfail now db req = Uncaught (ReferenceError ''JWT_SECRET''))"
  by (auto simp: JWT_SECRET_express_def authMiddleware_def post_api_login_def truthy_def Let_def
      split: option.splits list.splits bool.splits)

theorem express_jwt_secret_undefined_witness:
  "authMiddleware ref_express_lib 0
      (empty_request\<lparr>headers_authorization := Some ''Bearer abc'',
          body := [''email'' \<mapsto> ''a@x.com'', ''password'' \<mapsto> ''secret1'']\<rparr>)
      Reply (\<lambda>r. Reply 200 JNull)
    = Reply 401 (error_body ''Authentication failed: Invalid token.'')
   \<and> post_api_login ref_express_lib False 0 ref_my_db
        (empty_request\<lparr>headers_authorization := Some ''Bearer abc'',
          body := [''email'' \<mapsto> ''a@x.com'', ''password'' \<mapsto> ''secret1'']\<rparr>)
      = Uncaught (ReferenceError ''JWT_SECRET'')"
  using express_jwt_secret_undefined [of ref_express_lib 0
      "empty_request\<lparr>headers_authorization := Some ''Bearer abc'',
          body := [''email'' \<mapsto> ''a@x.com'', ''password'' \<mapsto> ''secret1'']\<rparr>"
      Reply "\<lambda>r. Reply 200 JNull" "''Bearer abc''" "CHR ''a''" "''bc''" False ref_my_db
      "''a@x.com''" "''secret1''" ana "[]"]
  by (simp add: empty_request_def ref_my_db_def ana_def ref_express_lib_def index_def truthy_def)

text \<open>
  C10, as amended. In \<^verbatim>\<open>GET /api/products\<close>, a \<^verbatim>\<open>user_id\<close> that is given and not empty
  takes precedence over \<^verbatim>\<open>q\<close>: the statement is the owner filter with the one parameter,
  the rows returned are those of that owner, and changing \<^verbatim>\<open>q\<close> changes nothing. The
  statement sent is always one of three, with at most one condition and one parameter, so
  the two filters are never combined. A parameter given as the empty string counts as
  absent, as \<^verbatim>\<open>if (user_id)\<close> and \<^verbatim>\<open>else if (q)\<close> test it: without a non-empty \<^verbatim>\<open>user_id\<close>
  a non-empty \<^verbatim>\<open>q\<close> gives the title search, and with neither every product is returned.
\<close>

theorem get_api_products_user_id_precedence:
  "(truthy (query req ''user_id'') = Some u \<longrightarrow>
      products_sql req = (''SELECT * FROM products WHERE user_id = ?'', [u])
      \<and> get_api_products L False db req =
          Reply 200 (JArr (map product_json
            (filter (\<lambda>p. case mp_user_id p of None \<Rightarrow> False | Some n \<Rightarrow> sql_int_eq L n u)
               (my_products db))))
      \<and> get_api_products L dbfail db (req\<lparr>query := (query req)(''q'' := v)\<rparr>)
          = get_api_products L dbfail db req)
   \<and> fst (products_sql req) \<in>
        {''SELECT * FROM products'', ''SELECT * FROM products WHERE user_id = ?'',
         ''SELECT * FROM products WHERE title LIKE ?''}
   \<and> length (snd (products_sql req)) \<le> 1
   \<and> (truthy (query req ''user_id'') = None \<longrightarrow> truthy (query req ''q'') = Some s \<longrightarrow>
        products_sql req = (''SELECT * FROM products WHERE title LIKE ?'', [''%'' @ s @ ''%'']))
   \<and> (truthy (query req ''user_id'') = None \<longrightarrow> truthy (query req ''q'') = None \<longrightarrow>
        products_sql req = (''SELECT * FROM products'', [])
        \<and> get_api_products L False db req = Reply 200 (JArr (map product_json (my_products db))))"
  by (auto simp: products_sql_def get_api_products_def select_products_def truthy_def Let_def
      split: option.splits list.splits)

theorem get_api_products_user_id_precedence_witness:
  "get_api_products ref_express_lib False ref_my_db
      (empty_request\<lparr>query := [''user_id'' \<mapsto> ''1'', ''q'' \<mapsto> ''Chair'']\<rparr>)
    = Reply 200 (JArr [product_json lamp])
   \<and> products_sql (empty_request\<lparr>query := [''user_id'' \<mapsto> ''1'', ''q'' \<mapsto> ''Chair'']\<rparr>)
    = (''SELECT * FROM products WHERE user_id = ?'', [''1''])
   \<and> products_sql (empty_request\<lparr>query := [''user_id'' \<mapsto> [], ''q'' \<mapsto> ''Chair'']\<rparr>)
    = (''SELECT * FROM products WHERE title LIKE ?'', [''%Chair%''])
   \<and> get_api_products ref_express_lib False ref_my_db empty_request
    = Reply 200 (JArr [product_json lamp])"
  using get_api_products_user_id_precedence [of
      "empty_request\<lparr>query := [''user_id'' \<mapsto> ''1'', ''q'' \<mapsto> ''Chair'']\<rparr>" "''1''"
      ref_express_lib ref_my_db False None "''Chair''"]
    get_api_products_user_id_precedence [of
      "empty_request\<lparr>query := [''user_id'' \<mapsto> [], ''q'' \<mapsto> ''Chair'']\<rparr>" "[]"
      ref_express_lib ref_my_db False None "''Chair''"]
    get_api_products_user_id_precedence [of empty_request "[]" ref_express_lib ref_my_db False
      None "[]"]
  by (simp add: empty_request_def ref_my_db_def lamp_def ref_express_lib_def truthy_def
      toString.simps digit_def)

text \<open>
  C10, as stated, fails when \<^verbatim>\<open>user_id\<close> is present and empty: the request
  \<^verbatim>\<open>?user_id=&q=Chair\<close> carries a \<^verbatim>\<open>user_id\<close>, and the statement built is the title search.
\<close>

theorem get_api_products_user_id_precedence_counterexample:
  "query (empty_request\<lparr>query := [''user_id'' \<mapsto> [], ''q'' \<mapsto> ''Chair'']\<rparr>) ''user_id'' \<noteq> None
   \<and> products_sql (empty_request\<lparr>query := [''user_id'' \<mapsto> [], ''q'' \<mapsto> ''Chair'']\<rparr>)
       = (''SELECT * FROM products WHERE title LIKE ?'', [''%Chair%''])
   \<and> get_api_products ref_express_lib False
         (ref_my_db\<lparr>my_products := [lamp, lamp\<lparr>mp_id := 2, mp_title := ''Chair''\<rparr>]\<rparr>)
         (empty_request\<lparr>query := [''user_id'' \<mapsto> [], ''q'' \<mapsto> ''Chair'']\<rparr>)
       = Reply 200 (JArr [product_json (lamp\<lparr>mp_id := 2, mp_title := ''Chair''\<rparr>)])"
  by (simp add: products_sql_def get_api_products_def select_products_def truthy_def
      empty_request_def ref_my_db_def lamp_def ref_express_lib_def)

text \<open>
  C2 (Express side). A token verified right after it was issued gives back the user id.
  The Express login issues no token at all: whatever the library, the datastore and the
  request, no reply of \<^verbatim>\<open>POST /api/login\<close> has a \<^verbatim>\<open>token\<close> field, because signing reads
  the unbound \<^verbatim>\<open>JWT_SECRET\<close> first.
\<close>

theorem express_login_issues_no_token:
  "''token'' \<notin> set (body_keys (post_api_login L dbfail now db req))"
  by (simp add: post_api_login_def JWT_SECRET_express_def error_body_def
      split: option.splits list.splits bool.splits prod.splits)

text \<open>
  C5 (Express side). A login after a valid signup returns a token for the new user. On the
  reference datastore the registration of a new user replies 201, and the login with the
  same email and password then ends in the uncaught ReferenceError.
\<close>

theorem express_register_then_login_raises:
  "fst (post_api_register ref_express_lib False 0 0 ref_my_db
         (empty_request\<lparr>body := [''email'' \<mapsto> ''b@x.com'', ''username'' \<mapsto> ''bob'',
             ''password'' \<mapsto> ''secret2'']\<rparr>))
     = Reply 201 (message_body ''Registration successful!'')
   \<and> post_api_login ref_express_lib False 1
         (snd (post_api_register ref_express_lib False 0 0 ref_my_db
            (empty_request\<lparr>body := [''email'' \<mapsto> ''b@x.com'', ''username'' \<mapsto> ''bob'',
                ''password'' \<mapsto> ''secret2'']\<rparr>)))
         (empty_request\<lparr>body := [''email'' \<mapsto> ''b@x.com'', ''password'' \<mapsto> ''secret2'']\<rparr>)
     = Uncaught (ReferenceError ''JWT_SECRET'')"
  by (simp add: post_api_register_def post_api_login_def JWT_SECRET_express_def truthy_def
      empty_request_def ref_my_db_def ana_def ref_express_lib_def)

section \<open>Properties of the Flask server\<close>

text \<open>
  C3. Only the owner's token changes or removes a listing. A request carries a valid token
  of user \<open>uid\<close> when \<open>credentials\<close> gives \<open>uid\<close>; listing ids are distinct (the primary
  key). With the valid token of a user who does not own listing \<open>l\<close>: the condition
  \<^verbatim>\<open>id=%s AND owner_id=%s\<close> of both statements selects zero rows and the table of listings
  is unchanged, whatever the fault; the reply
  is never 403 and is the reply the same request gets when no listing has that id; the
  update replies 404 \<^verbatim>\<open>{"error": "Not found"}\<close> once the body has its three required
  fields, and the delete, which does not look at the row count, replies
  \<^verbatim>\<open>{"message": "Deleted"}\<close>. With the owner's token the delete removes exactly \<open>l\<close> and
  the update rewrites exactly \<open>l\<close>. Without an Authorization header, with one that does
  not start with \<^verbatim>\<open>Bearer\<close> and a space, or with a token the library rejects, both routes
  reply 401 and change nothing.
\<close>

theorem listing_mutation_owner_only:
  "(credentials L now request = Inr uid \<longrightarrow> distinct (map pp_id (pg_products db)) \<longrightarrow>
    l \<in> set (pg_products db) \<longrightarrow> pp_owner_id l \<noteq> uid \<longrightarrow>
      length (filter (\<lambda>r. pp_id r = pp_id l \<and> pp_owner_id r = uid) (pg_products db)) = 0
      \<and> pg_products (snd (flask L fault salt now (UpdateProduct (pp_id l)) request db))
        = pg_products db
      \<and> pg_products (snd (flask L fault salt now (DeleteProduct (pp_id l)) request db))
        = pg_products db
      \<and> status (fst (flask L fault salt now (UpdateProduct (pp_id l)) request db)) \<noteq> 403
      \<and> status (fst (flask L fault salt now (DeleteProduct (pp_id l)) request db)) \<noteq> 403
      \<and> fst (flask L fault salt now (UpdateProduct (pp_id l)) request
                (db\<lparr>pg_products := filter (\<lambda>r. pp_id r \<noteq> pp_id l) (pg_products db)\<rparr>))
          = fst (flask L fault salt now (UpdateProduct (pp_id l)) request db)
      \<and> fst (flask L fault salt now (DeleteProduct (pp_id l)) request
                (db\<lparr>pg_products := filter (\<lambda>r. pp_id r \<noteq> pp_id l) (pg_products db)\<rparr>))
          = fst (flask L fault salt now (DeleteProduct (pp_id l)) request db)
      \<and> (fault = None \<longrightarrow>
           fst (flask L fault salt now (DeleteProduct (pp_id l)) request db)
             = Reply 200 (message_body ''Deleted''))
      \<and> (fault = None \<longrightarrow> json request ''title'' = Some t \<longrightarrow>
           json request ''category'' = Some c \<longrightarrow> json request ''price'' = Some p \<longrightarrow>
           fst (flask L fault salt now (UpdateProduct (pp_id l)) request db)
             = Reply 404 (error_body ''Not found'')))
   \<and> (credentials L now request = Inr uid \<longrightarrow> distinct (map pp_id (pg_products db)) \<longrightarrow>
       l \<in> set (pg_products db) \<longrightarrow> pp_owner_id l = uid \<longrightarrow>
         fst (flask L None salt now (DeleteProduct (pp_id l)) request db)
           = Reply 200 (message_body ''Deleted'')
         \<and> set (pg_products (snd (flask L None salt now (DeleteProduct (pp_id l)) request db)))
             = set (pg_products db) - {l}
         \<and> (json request ''title'' = Some t \<longrightarrow> json request ''category'' = Some c \<longrightarrow>
             json request ''price'' = Some p \<longrightarrow>
               fst (flask L None salt now (UpdateProduct (pp_id l)) request db)
                 = Reply 200 (message_body ''Updated'')
               \<and> pg_products (snd (flask L None salt now (UpdateProduct (pp_id l)) request db))
                 = map (\<lambda>r. if r = l
                        then r\<lparr>pp_title := t, pp_description := json request ''description'',
                               pp_category := c, pp_price := p,
                               pp_image_url := json request ''image_url''\<rparr>
                        else r) (pg_products db)))
   \<and> (headers request ''Authorization'' = None \<longrightarrow>
         flask L fault salt now (UpdateProduct pid) request db
           = (Reply 401 (error_body ''Missing token''), db)
         \<and> flask L fault salt now (DeleteProduct pid) request db
           = (Reply 401 (error_body ''Missing token''), db))
   \<and> (headers request ''Authorization'' = Some a \<longrightarrow> \<not> startswith a ''Bearer '' \<longrightarrow>
         flask L fault salt now (UpdateProduct pid) request db
           = (Reply 401 (error_body ''Missing token''), db)
         \<and> flask L fault salt now (DeleteProduct pid) request db
           = (Reply 401 (error_body ''Missing token''), db))
   \<and> (headers request ''Authorization'' = Some (''Bearer '' @ tok) \<longrightarrow> CHR '' '' \<notin> set tok \<longrightarrow>
       jwt_decode L tok (JWT_SECRET L) now = Inl e \<longrightarrow>
         flask L fault salt now (UpdateProduct pid) request db
           = (Reply 401 (error_body ''Invalid token''), db)
         \<and> flask L fault salt now (DeleteProduct pid) request db
           = (Reply 401 (error_body ''Invalid token''), db))"
proof (intro conjI impI)
  assume c: "credentials L now request = Inr uid" and d: "distinct (map pp_id (pg_products db))"
    and l: "l \<in> set (pg_products db)" and o: "pp_owner_id l \<noteq> uid"
  let ?req = "request\<lparr>user_id := Some uid\<rparr>"
  have u: "user_id ?req = Some uid" by simp
  have none: "\<forall>r\<in>set (pg_products db). \<not> (pp_id r = pp_id l \<and> pp_owner_id r = uid)"
    using distinct_key [OF d _ l] o by auto
  have fu: "flask L fault salt now (UpdateProduct (pp_id l)) request db
              = update_product fault (pp_id l) ?req db"
    and fd: "flask L fault salt now (DeleteProduct (pp_id l)) request db
              = delete_product fault (pp_id l) ?req db"
    using c by (simp_all add: flask_def require_auth_credentials)
  show "length (filter (\<lambda>r. pp_id r = pp_id l \<and> pp_owner_id r = uid) (pg_products db)) = 0"
    using none by (simp add: filter_empty_conv)
  show "pg_products (snd (flask L fault salt now (UpdateProduct (pp_id l)) request db))
        = pg_products db"
    using update_product_other(1) [OF u none] fu by simp
  show "pg_products (snd (flask L fault salt now (DeleteProduct (pp_id l)) request db))
        = pg_products db"
    using delete_product_other(1) [OF u none] fd by simp
  show "status (fst (flask L fault salt now (UpdateProduct (pp_id l)) request db)) \<noteq> 403"
    using update_product_other(2) [OF u none] fu by simp
  show "status (fst (flask L fault salt now (DeleteProduct (pp_id l)) request db)) \<noteq> 403"
    using delete_product_other(2) [OF u none] fd by simp
  have gone: "\<forall>r\<in>set (filter (\<lambda>r. pp_id r \<noteq> pp_id l) (pg_products db)).
      \<not> (pp_id r = pp_id l \<and> pp_owner_id r = uid)"
    by simp
  show "fst (flask L fault salt now (UpdateProduct (pp_id l)) request
                (db\<lparr>pg_products := filter (\<lambda>r. pp_id r \<noteq> pp_id l) (pg_products db)\<rparr>))
          = fst (flask L fault salt now (UpdateProduct (pp_id l)) request db)"
    using other_listing_as_absent(1) [OF u none gone] c
    by (simp add: flask_def require_auth_credentials)
  show "fst (flask L fault salt now (DeleteProduct (pp_id l)) request
                (db\<lparr>pg_products := filter (\<lambda>r. pp_id r \<noteq> pp_id l) (pg_products db)\<rparr>))
          = fst (flask L fault salt now (DeleteProduct (pp_id l)) request db)"
    using other_listing_as_absent(2) [OF u none gone] c
    by (simp add: flask_def require_auth_credentials)
  show "fst (flask L fault salt now (DeleteProduct (pp_id l)) request db)
          = Reply 200 (message_body ''Deleted'')" if "fault = None"
    using delete_product_other(3) [OF u none that] fd by simp
  show "fst (flask L fault salt now (UpdateProduct (pp_id l)) request db)
          = Reply 404 (error_body ''Not found'')"
    if "fault = None" "json request ''title'' = Some t" "json request ''category'' = Some c"
       "json request ''price'' = Some p"
    using update_product_other(3) [OF u none that(1), of t c p] that fu by simp
next
  assume c: "credentials L now request = Inr uid" and d: "distinct (map pp_id (pg_products db))"
    and l: "l \<in> set (pg_products db)" and o: "pp_owner_id l = uid"
  let ?req = "request\<lparr>user_id := Some uid\<rparr>"
  have u: "user_id ?req = Some uid" by simp
  have fu: "flask L None salt now (UpdateProduct (pp_id l)) request db
              = update_product None (pp_id l) ?req db"
    and fd: "flask L None salt now (DeleteProduct (pp_id l)) request db
              = delete_product None (pp_id l) ?req db"
    using c by (simp_all add: flask_def require_auth_credentials)
  show "fst (flask L None salt now (DeleteProduct (pp_id l)) request db)
           = Reply 200 (message_body ''Deleted'')"
    using delete_product_owner(2) [OF u d l o] fd by simp
  show "set (pg_products (snd (flask L None salt now (DeleteProduct (pp_id l)) request db)))
             = set (pg_products db) - {l}"
    using delete_product_owner(1) [OF u d l o] fd by simp
  show "fst (flask L None salt now (UpdateProduct (pp_id l)) request db)
                 = Reply 200 (message_body ''Updated'')"
    if "json request ''title'' = Some t" "json request ''category'' = Some c"
       "json request ''price'' = Some p"
    using update_product_owner(2) [OF u d l o, of t c p] that fu by simp
  show "pg_products (snd (flask L None salt now (UpdateProduct (pp_id l)) request db))
                 = map (\<lambda>r. if r = l
                        then r\<lparr>pp_title := t, pp_description := json request ''description'',
                               pp_category := c, pp_price := p,
                               pp_image_url := json request ''image_url''\<rparr>
                        else r) (pg_products db)"
    if "json request ''title'' = Some t" "json request ''category'' = Some c"
       "json request ''price'' = Some p"
    using update_product_owner(1) [OF u d l o, of t c p] that fu by simp
next
  assume "headers request ''Authorization'' = None"
  then have m: "credentials L now request = Inl (Reply 401 (error_body ''Missing token''))"
    by (simp add: credentials_def)
  show "flask L fault salt now (UpdateProduct pid) request db
           = (Reply 401 (error_body ''Missing token''), db)"
    and "flask L fault salt now (DeleteProduct pid) request db
           = (Reply 401 (error_body ''Missing token''), db)"
    using m by (simp_all add: flask_def require_auth_credentials)
next
  assume "headers request ''Authorization'' = Some a" "\<not> startswith a ''Bearer ''"
  then have m: "credentials L now request = Inl (Reply 401 (error_body ''Missing token''))"
    by (simp add: credentials_def)
  show "flask L fault salt now (UpdateProduct pid) request db
           = (Reply 401 (error_body ''Missing token''), db)"
    and "flask L fault salt now (DeleteProduct pid) request db
           = (Reply 401 (error_body ''Missing token''), db)"
    using m by (simp_all add: flask_def require_auth_credentials)
next
  assume "headers request ''Authorization'' = Some (''Bearer '' @ tok)" "CHR '' '' \<notin> set tok"
    "jwt_decode L tok (JWT_SECRET L) now = Inl e"
  then have m: "credentials L now request = Inl (Reply 401 (error_body ''Invalid token''))"
    using credentials_bearer [of request tok L now] by simp
  show "flask L fault salt now (UpdateProduct pid) request db
           = (Reply 401 (error_body ''Invalid token''), db)"
    and "flask L fault salt now (DeleteProduct pid) request db
           = (Reply 401 (error_body ''Invalid token''), db)"
    using m by (simp_all add: flask_def require_auth_credentials)
qed


theorem listing_mutation_owner_only_witness:
  "fst (flask ref_flask_lib None 0 0 (UpdateProduct 1)
          (bearer_request ''bob''\<lparr>json := [''title'' \<mapsto> ''Mine'', ''category'' \<mapsto> ''Home'',
             ''price'' \<mapsto> ''1'']\<rparr>) ref_pg_db)
     = Reply 404 (error_body ''Not found'')
   \<and> pg_products (snd (flask ref_flask_lib None 0 0 (UpdateProduct 1)
          (bearer_request ''bob''\<lparr>json := [''title'' \<mapsto> ''Mine'', ''category'' \<mapsto> ''Home'',
             ''price'' \<mapsto> ''1'']\<rparr>) ref_pg_db)) = [pg_lamp]
   \<and> fst (flask ref_flask_lib None 0 0 (DeleteProduct 1)
          (bearer_request ''bob''\<lparr>json := Map.empty\<rparr>) ref_pg_db)
       = Reply 200 (message_body ''Deleted'')
   \<and> pg_products (snd (flask ref_flask_lib None 0 0 (DeleteProduct 1)
          (bearer_request ''bob''\<lparr>json := Map.empty\<rparr>) ref_pg_db)) = [pg_lamp]
   \<and> set (pg_products (snd (flask ref_flask_lib None 0 0 (DeleteProduct 1)
          (bearer_request ''ana''\<lparr>json := Map.empty\<rparr>) ref_pg_db))) = {}
   \<and> flask ref_flask_lib None 0 0 (DeleteProduct 1) anonymous_request ref_pg_db
       = (Reply 401 (error_body ''Missing token''), ref_pg_db)
   \<and> flask ref_flask_lib None 0 0 (DeleteProduct 1) (bearer_request ''junk'') ref_pg_db
       = (Reply 401 (error_body ''Invalid token''), ref_pg_db)
   \<and> flask ref_flask_lib None 0 0 (DeleteProduct 1)
         (anonymous_request\<lparr>headers := [''Authorization'' \<mapsto> ''Basic abc'']\<rparr>) ref_pg_db
       = (Reply 401 (error_body ''Missing token''), ref_pg_db)"
  using
    listing_mutation_owner_only [where L = ref_flask_lib and now = 0 and uid = 2
      and request = "bearer_request ''bob''\<lparr>json := [''title'' \<mapsto> ''Mine'',
          ''category'' \<mapsto> ''Home'', ''price'' \<mapsto> ''1'']\<rparr>"
      and db = ref_pg_db and l = pg_lamp and fault = None and salt = 0 and t = "''Mine''"
      and c = "''Home''" and p = "''1''" and pid = 1 and tok = "[]" and e = Malformed and a = "[]"]
    listing_mutation_owner_only [where L = ref_flask_lib and now = 0 and uid = 2
      and request = "bearer_request ''bob''\<lparr>json := Map.empty\<rparr>"
      and db = ref_pg_db and l = pg_lamp and fault = None and salt = 0 and t = "[]"
      and c = "[]" and p = "[]" and pid = 1 and tok = "[]" and e = Malformed and a = "[]"]
    listing_mutation_owner_only [where L = ref_flask_lib and now = 0 and uid = 1
      and request = "bearer_request ''ana''\<lparr>json := Map.empty\<rparr>"
      and db = ref_pg_db and l = pg_lamp and fault = None and salt = 0 and t = "[]"
      and c = "[]" and p = "[]" and pid = 1 and tok = "[]" and e = Malformed and a = "[]"]
    listing_mutation_owner_only [where L = ref_flask_lib and now = 0 and uid = 1
      and request = anonymous_request
      and db = ref_pg_db and l = pg_lamp and fault = None and salt = 0 and t = "[]"
      and c = "[]" and p = "[]" and pid = 1 and tok = "[]" and e = Malformed and a = "[]"]
    listing_mutation_owner_only [where L = ref_flask_lib and now = 0 and uid = 1
      and request = "bearer_request ''junk''"
      and db = ref_pg_db and l = pg_lamp and fault = None and salt = 0 and t = "[]"
      and c = "[]" and p = "[]" and pid = 1 and tok = "''junk''" and e = Malformed and a = "[]"]
    listing_mutation_owner_only [where L = ref_flask_lib and now = 0 and uid = 1
      and request = "anonymous_request\<lparr>headers := [''Authorization'' \<mapsto> ''Basic abc'']\<rparr>"
      and db = ref_pg_db and l = pg_lamp and fault = None and salt = 0 and t = "[]"
      and c = "[]" and p = "[]" and pid = 1 and tok = "[]" and e = Malformed
      and a = "''Basic abc''"]
  by (simp add: ref_tokens ref_tables prod_eq_iff startswith_def)

text \<open>
  C4. Checkout is atomic. For a caller with a valid token: when no datastore operation of
  the request fails, the reply is \<^verbatim>\<open>{"message": "Order placed"}\<close>, the caller's cart is
  empty, the caller has as many more orders as the cart had rows, and the tables are the
  fully migrated ones; when the first statement, the second statement or the commit
  fails, the request ends in the uncaught datastore error and cart and orders are what
  they were. Every fault is one of the two cases, so no state in between persists.
\<close>

theorem checkout_atomic:
  "credentials L now request = Inr uid \<longrightarrow>
     (fault \<notin> {Some 0, Some 1, Some 2} \<longrightarrow>
        fst (flask L fault salt now Checkout request db) = Reply 200 (message_body ''Order placed'')
        \<and> filter (\<lambda>c. pc_user_id c = uid)
             (pg_cart_items (snd (flask L fault salt now Checkout request db))) = []
        \<and> length (filter (\<lambda>ord. po_user_id ord = uid)
             (pg_orders (snd (flask L fault salt now Checkout request db))))
           = length (filter (\<lambda>ord. po_user_id ord = uid) (pg_orders db))
             + length (filter (\<lambda>c. pc_user_id c = uid) (pg_cart_items db))
        \<and> pg_cart_items (snd (flask L fault salt now Checkout request db))
           = filter (\<lambda>c. pc_user_id c \<noteq> uid) (pg_cart_items db)
        \<and> pg_orders (snd (flask L fault salt now Checkout request db))
           = pg_orders db @
             map (\<lambda>(k, c). \<lparr>po_id = k, po_user_id = uid, po_product_id = pc_product_id c,
                              po_purchased_at = now\<rparr>)
               (enumerate (pg_orders_seq db)
                  (filter (\<lambda>c. pc_user_id c = uid) (pg_cart_items db))))
     \<and> (fault \<in> {Some 0, Some 1, Some 2} \<longrightarrow>
        fst (flask L fault salt now Checkout request db)
          = Uncaught (Psycopg2Error OperationalError)
        \<and> pg_cart_items (snd (flask L fault salt now Checkout request db)) = pg_cart_items db
        \<and> pg_orders (snd (flask L fault salt now Checkout request db)) = pg_orders db)"
proof (intro impI conjI)
  assume c: "credentials L now request = Inr uid"
    and ok: "fault \<notin> {Some 0, Some 1, Some 2}"
  let ?req = "request\<lparr>user_id := Some uid\<rparr>"
  have u: "user_id ?req = Some uid" by simp
  have f: "flask L fault salt now Checkout request db = checkout fault now ?req db"
    using c by (simp add: flask_def require_auth_credentials)
  note committed = checkout_committed [OF u ok, of now db]
    show "fst (flask L fault salt now Checkout request db)
            = Reply 200 (message_body ''Order placed'')"
      by (simp add: f committed)
    show "filter (\<lambda>c. pc_user_id c = uid)
             (pg_cart_items (snd (flask L fault salt now Checkout request db))) = []"
      by (simp add: f committed filter_empty_conv)
    show "length (filter (\<lambda>ord. po_user_id ord = uid)
             (pg_orders (snd (flask L fault salt now Checkout request db))))
           = length (filter (\<lambda>ord. po_user_id ord = uid) (pg_orders db))
             + length (filter (\<lambda>c. pc_user_id c = uid) (pg_cart_items db))"
      by (simp add: f committed insert_orders_def Let_def new_orders_of_user)
    show "pg_cart_items (snd (flask L fault salt now Checkout request db))
           = filter (\<lambda>c. pc_user_id c \<noteq> uid) (pg_cart_items db)"
      by (simp add: f committed)
    show "pg_orders (snd (flask L fault salt now Checkout request db))
           = pg_orders db @
             map (\<lambda>(k, c). \<lparr>po_id = k, po_user_id = uid, po_product_id = pc_product_id c,
                              po_purchased_at = now\<rparr>)
               (enumerate (pg_orders_seq db)
                  (filter (\<lambda>c. pc_user_id c = uid) (pg_cart_items db)))"
      by (auto simp: f committed insert_orders_def Let_def dest: cart_rows_of_user)
next
  assume c: "credentials L now request = Inr uid"
    and ko: "fault \<in> {Some 0, Some 1, Some 2}"
  let ?req = "request\<lparr>user_id := Some uid\<rparr>"
  have u: "user_id ?req = Some uid" by simp
  have f: "flask L fault salt now Checkout request db = checkout fault now ?req db"
    using c by (simp add: flask_def require_auth_credentials)
  show "fst (flask L fault salt now Checkout request db)
          = Uncaught (Psycopg2Error OperationalError)"
      and "pg_cart_items (snd (flask L fault salt now Checkout request db)) = pg_cart_items db"
      and "pg_orders (snd (flask L fault salt now Checkout request db)) = pg_orders db"
      using checkout_rolled_back [OF u ko, of now db] by (simp_all add: f)
qed

theorem checkout_atomic_witness:
  "fst (flask ref_flask_lib None 0 77 Checkout (bearer_request ''bob'') ref_pg_db)
     = Reply 200 (message_body ''Order placed'')
   \<and> pg_cart_items (snd (flask ref_flask_lib None 0 77 Checkout (bearer_request ''bob'')
        ref_pg_db)) = []
   \<and> pg_orders (snd (flask ref_flask_lib None 0 77 Checkout (bearer_request ''bob'')
        ref_pg_db))
      = [\<lparr>po_id = 1, po_user_id = 2, po_product_id = 1, po_purchased_at = 77\<rparr>]
   \<and> pg_cart_items (snd (flask ref_flask_lib (Some 1) 0 77 Checkout (bearer_request ''bob'')
        ref_pg_db)) = [bobs_item]
   \<and> pg_orders (snd (flask ref_flask_lib (Some 1) 0 77 Checkout (bearer_request ''bob'')
        ref_pg_db)) = []"
  using checkout_atomic [where L = ref_flask_lib and now = 77 and uid = 2 and salt = 0
      and request = "bearer_request ''bob''" and db = ref_pg_db and fault = None]
    checkout_atomic [where L = ref_flask_lib and now = 77 and uid = 2 and salt = 0
      and request = "bearer_request ''bob''" and db = ref_pg_db and fault = "Some 1"]
  by (simp add: ref_tokens ref_tables enumerate_simps)

text \<open>
  C1 (Flask side). A token that verifies lets the request through with the caller's
  identity. The reference verifier accepts the token \<^verbatim>\<open>anon\<close> before its expiry, with a
  payload that has no \<^verbatim>\<open>uid\<close>: \<^verbatim>\<open>payload["uid"]\<close> raises KeyError inside the \<^verbatim>\<open>try\<close>, the \<^verbatim>\<open>except\<close>
  clause catches only \<^verbatim>\<open>jwt.InvalidTokenError\<close>, and the request ends in the uncaught
  exception: no 401 and no call of the view \<open>f\<close>.
\<close>

theorem require_auth_token_without_uid:
  "jwt_decode ref_flask_lib ''anon'' (JWT_SECRET ref_flask_lib) 0 = Inr [''exp'' \<mapsto> 28800]
   \<and> credentials ref_flask_lib 0 (bearer_request ''anon'') = Inl (Uncaught (KeyError ''uid''))
   \<and> require_auth ref_flask_lib 0 f (bearer_request ''anon'') ref_pg_db
       = (Uncaught (KeyError ''uid''), ref_pg_db)
   \<and> flask ref_flask_lib None 0 0 Me (bearer_request ''anon'') ref_pg_db
       = (Uncaught (KeyError ''uid''), ref_pg_db)"
  by (simp add: flask_def require_auth_credentials credentials_def bearer_request_def
      ref_flask_lib_def JWT_SECRET_def startswith_def index_def)

text \<open>
  C8 (Flask side). A failed login looks the same whether or not the account exists. A
  Flask login without a \<^verbatim>\<open>password\<close> field ends in the uncaught KeyError when the email
  is registered, and replies 401 \<^verbatim>\<open>{"error": "Invalid credentials"}\<close> when it is not.
\<close>

theorem login_missing_password_reveals_account:
  "login ref_flask_lib None 0 (anonymous_request\<lparr>json := [''email'' \<mapsto> ''a@x.com'']\<rparr>)
      ref_pg_db
     = (Uncaught (KeyError ''password''), ref_pg_db)
   \<and> login ref_flask_lib None 0 (anonymous_request\<lparr>json := [''email'' \<mapsto> ''z@x.com'']\<rparr>)
      ref_pg_db
     = (Reply 401 (error_body ''Invalid credentials''), ref_pg_db)"
  by (simp add: login_def with_conn_def respond_def failed_def rollback_def anonymous_request_def
      ref_pg_db_def pg_ana_def pg_bob_def)

section \<open>Properties of both servers\<close>

text \<open>
  C7, as amended. The Express registration replies 201 when email, username and password
  are given and not empty, the hasher succeeds, the datastore answers and the email is
  new; 409 when the email is registered already; 400 when one of the three is missing or
  empty. The Flask signup, given an email and a password that are not empty, replies 200
  with the new id when a username is given, the email is new and neither the statement
  nor the commit fails; its status is 400, and the table of users is as before, when the
  email is registered already, and also when no username is given; it replies 400 when
  email or password is missing or empty.
\<close>

theorem signup_statuses:
  "(truthy (body req ''email'') = Some email \<longrightarrow> truthy (body req ''password'') = Some password \<longrightarrow>
    truthy (body req ''username'') = Some username \<longrightarrow>
    bcryptjs_hash L password 10 salt = Some hashed \<longrightarrow> \<not> dbfail \<longrightarrow>
      (\<not> list_ex (\<lambda>u. sql_text_eq L (mu_email u) email) (my_users db) \<longrightarrow>
         fst (post_api_register L dbfail salt now db req)
           = Reply 201 (message_body ''Registration successful!''))
      \<and> (list_ex (\<lambda>u. sql_text_eq L (mu_email u) email) (my_users db) \<longrightarrow>
         post_api_register L dbfail salt now db req
           = (Reply 409 (error_body ''Email already registered.''), db)))
   \<and> (falsy (body req ''email'') \<or> falsy (body req ''password'') \<or> falsy (body req ''username'') \<longrightarrow>
        post_api_register L dbfail salt now db req
          = (Reply 400 (error_body ''Username, email, and password are required.''), db))
   \<and> (truthy (json request ''email'') = Some email' \<longrightarrow>
       truthy (json request ''password'') = Some password' \<longrightarrow>
         (json request ''username'' = Some username' \<longrightarrow>
            (email' \<notin> set (map pu_email (pg_users pdb)) \<longrightarrow> fault \<notin> {Some 0, Some 1} \<longrightarrow>
               fst (signup F fault salt request pdb)
                 = Reply 200 (JObj [(''message'', JStr ''User created''),
                                    (''id'', JNum (pg_users_seq pdb))]))
            \<and> (email' \<in> set (map pu_email (pg_users pdb)) \<longrightarrow>
               status (fst (signup F fault salt request pdb)) = 400
               \<and> pg_users (snd (signup F fault salt request pdb)) = pg_users pdb))
         \<and> (json request ''username'' = None \<longrightarrow>
               status (fst (signup F fault salt request pdb)) = 400
               \<and> pg_users (snd (signup F fault salt request pdb)) = pg_users pdb))
   \<and> (falsy (json request ''email'') \<or> falsy (json request ''password'') \<longrightarrow>
        signup F fault salt request pdb
          = (Reply 400 (error_body ''Email and password required''), pdb))"
proof (intro conjI impI)
  assume "truthy (body req ''email'') = Some email" "truthy (body req ''password'') = Some password"
    "truthy (body req ''username'') = Some username" "bcryptjs_hash L password 10 salt = Some hashed"
    "\<not> dbfail"
  then show "\<not> list_ex (\<lambda>u. sql_text_eq L (mu_email u) email) (my_users db) \<Longrightarrow>
      fst (post_api_register L dbfail salt now db req)
        = Reply 201 (message_body ''Registration successful!'')"
    and "list_ex (\<lambda>u. sql_text_eq L (mu_email u) email) (my_users db) \<Longrightarrow>
      post_api_register L dbfail salt now db req
        = (Reply 409 (error_body ''Email already registered.''), db)"
    by (auto simp: post_api_register_def truthy_def Let_def split: option.splits list.splits)
next
  assume "falsy (body req ''email'') \<or> falsy (body req ''password'') \<or> falsy (body req ''username'')"
  then show "post_api_register L dbfail salt now db req
      = (Reply 400 (error_body ''Username, email, and password are required.''), db)"
    by (auto simp: post_api_register_def truthy_def falsy_def split: option.splits list.splits)
next
  assume t: "truthy (json request ''email'') = Some email'"
    "truthy (json request ''password'') = Some password'"
  {
    assume "json request ''username'' = Some username'"
      "email' \<notin> set (map pu_email (pg_users pdb))" "fault \<notin> {Some 0, Some 1}"
    with t show "fst (signup F fault salt request pdb)
        = Reply 200 (JObj [(''message'', JStr ''User created''), (''id'', JNum (pg_users_seq pdb))])"
      by (simp add: signup_def with_conn_def Let_def)
  next
    assume "json request ''username'' = Some username'"
      "email' \<in> set (map pu_email (pg_users pdb))"
    with t show "status (fst (signup F fault salt request pdb)) = 400"
      and "pg_users (snd (signup F fault salt request pdb)) = pg_users pdb"
      by (simp_all add: signup_def with_conn_def failed_def rollback_def Let_def)
  next
    assume "json request ''username'' = None"
    with t show "status (fst (signup F fault salt request pdb)) = 400"
      and "pg_users (snd (signup F fault salt request pdb)) = pg_users pdb"
      by (simp_all add: signup_def with_conn_def failed_def rollback_def Let_def)
  }
next
  assume "falsy (json request ''email'') \<or> falsy (json request ''password'')"
  then show "signup F fault salt request pdb
      = (Reply 400 (error_body ''Email and password required''), pdb)"
    by (auto simp: signup_def truthy_def falsy_def Let_def split: option.splits list.splits)
qed

theorem signup_statuses_witness:
  "fst (post_api_register ref_express_lib False 0 0 ref_my_db
         (empty_request\<lparr>body := [''email'' \<mapsto> ''c@x.com'', ''username'' \<mapsto> ''cy'',
             ''password'' \<mapsto> ''secret3'']\<rparr>))
     = Reply 201 (message_body ''Registration successful!'')
   \<and> fst (post_api_register ref_express_lib False 0 0 ref_my_db
         (empty_request\<lparr>body := [''email'' \<mapsto> ''a@x.com'', ''username'' \<mapsto> ''cy'',
             ''password'' \<mapsto> ''secret3'']\<rparr>))
     = Reply 409 (error_body ''Email already registered.'')
   \<and> fst (post_api_register ref_express_lib False 0 0 ref_my_db
         (empty_request\<lparr>body := [''email'' \<mapsto> ''c@x.com'', ''password'' \<mapsto> ''secret3'']\<rparr>))
     = Reply 400 (error_body ''Username, email, and password are required.'')
   \<and> fst (signup ref_flask_lib None 0
         (anonymous_request\<lparr>json := [''email'' \<mapsto> ''c@x.com'', ''username'' \<mapsto> ''cy'',
             ''password'' \<mapsto> ''secret3'']\<rparr>) ref_pg_db)
     = Reply 200 (JObj [(''message'', JStr ''User created''), (''id'', JNum 3)])
   \<and> status (fst (signup ref_flask_lib None 0
         (anonymous_request\<lparr>json := [''email'' \<mapsto> ''a@x.com'', ''username'' \<mapsto> ''cy'',
             ''password'' \<mapsto> ''secret3'']\<rparr>) ref_pg_db)) = 400
   \<and> status (fst (signup ref_flask_lib None 0
         (anonymous_request\<lparr>json := [''email'' \<mapsto> ''c@x.com'',
             ''password'' \<mapsto> ''secret3'']\<rparr>) ref_pg_db)) = 400
   \<and> fst (signup ref_flask_lib None 0
         (anonymous_request\<lparr>json := [''email'' \<mapsto> ''c@x.com'', ''username'' \<mapsto> ''cy'']\<rparr>)
         ref_pg_db)
     = Reply 400 (error_body ''Email and password required'')"
  using
    signup_statuses [where L = ref_express_lib and dbfail = False and salt = 0 and now = 0
      and db = ref_my_db and email = "''c@x.com''" and password = "''secret3''"
      and username = "''cy''" and hashed = "''$2a$secret3''"
      and req = "empty_request\<lparr>body := [''email'' \<mapsto> ''c@x.com'', ''username'' \<mapsto> ''cy'',
             ''password'' \<mapsto> ''secret3'']\<rparr>"
      and F = ref_flask_lib and fault = None and pdb = ref_pg_db
      and email' = "''c@x.com''" and password' = "''secret3''" and username' = "''cy''"
      and request = "anonymous_request\<lparr>json := [''email'' \<mapsto> ''c@x.com'', ''username'' \<mapsto> ''cy'',
             ''password'' \<mapsto> ''secret3'']\<rparr>"]
    signup_statuses [where L = ref_express_lib and dbfail = False and salt = 0 and now = 0
      and db = ref_my_db and email = "''a@x.com''" and password = "''secret3''"
      and username = "''cy''" and hashed = "''$2a$secret3''"
      and req = "empty_request\<lparr>body := [''email'' \<mapsto> ''a@x.com'', ''username'' \<mapsto> ''cy'',
             ''password'' \<mapsto> ''secret3'']\<rparr>"
      and F = ref_flask_lib and fault = None and pdb = ref_pg_db
      and email' = "''a@x.com''" and password' = "''secret3''" and username' = "''cy''"
      and request = "anonymous_request\<lparr>json := [''email'' \<mapsto> ''a@x.com'', ''username'' \<mapsto> ''cy'',
             ''password'' \<mapsto> ''secret3'']\<rparr>"]
    signup_statuses [where L = ref_express_lib and dbfail = False and salt = 0 and now = 0
      and db = ref_my_db and email = "[]" and password = "[]"
      and username = "[]" and hashed = "[]"
      and req = "empty_request\<lparr>body := [''email'' \<mapsto> ''c@x.com'',
             ''password'' \<mapsto> ''secret3'']\<rparr>"
      and F = ref_flask_lib and fault = None and pdb = ref_pg_db
      and email' = "''c@x.com''" and password' = "''secret3''" and username' = "[]"
      and request = "anonymous_request\<lparr>json := [''email'' \<mapsto> ''c@x.com'',
             ''password'' \<mapsto> ''secret3'']\<rparr>"]
    signup_statuses [where L = ref_express_lib and dbfail = False and salt = 0 and now = 0
      and db = ref_my_db and email = "[]" and password = "[]"
      and username = "[]" and hashed = "[]"
      and req = "empty_request"
      and F = ref_flask_lib and fault = None and pdb = ref_pg_db
      and email' = "[]" and password' = "[]" and username' = "[]"
      and request = "anonymous_request\<lparr>json := [''email'' \<mapsto> ''c@x.com'',
             ''username'' \<mapsto> ''cy'']\<rparr>"]
  by (simp add: truthy_def falsy_def empty_request_def anonymous_request_def
      ref_my_db_def ana_def ref_pg_db_def pg_ana_def pg_bob_def ref_express_lib_def
      ref_flask_lib_def)

text \<open>
  C7, as stated, fails on the Flask signup: on the reference datastore a signup with a
  new email, a username and a password does not reply 201, and a signup with a
  registered email does not reply 409.
\<close>

theorem signup_statuses_counterexample:
  "status (fst (signup ref_flask_lib None 0
       (anonymous_request\<lparr>json := [''email'' \<mapsto> ''c@x.com'', ''username'' \<mapsto> ''cy'',
           ''password'' \<mapsto> ''secret3'']\<rparr>) ref_pg_db)) \<noteq> 201
   \<and> status (fst (signup ref_flask_lib None 0
       (anonymous_request\<lparr>json := [''email'' \<mapsto> ''a@x.com'', ''username'' \<mapsto> ''cy'',
           ''password'' \<mapsto> ''secret3'']\<rparr>) ref_pg_db)) \<noteq> 409"
  by (simp add: signup_def with_conn_def failed_def truthy_def anonymous_request_def
      ref_pg_db_def ref_flask_lib_def pg_ana_def pg_bob_def)

text \<open>
  No reply of either server has a field named \<^verbatim>\<open>password\<close> or \<^verbatim>\<open>password_hash\<close>: not
  through the routes, and not from the Express handlers taken on their own, which the
  routes never reach. The profile update leaves the password column alone. A user row
  that a successful registration (Express) or signup (Flask) created from the password
  \<open>pw\<close> is present after every later run of requests, and the password column of every
  row with its id is the hasher's output for \<open>pw\<close>, which differs from \<open>pw\<close> when the
  hasher did not return its input. Ids in the starting datastore are below the counter,
  as in the empty one. This bounds the names of the fields only, not the text under
  \<^verbatim>\<open>error\<close>.
\<close>

lemma password_column_and_field_names:
  "(k \<in> {''password'', ''password_hash''} \<longrightarrow>
      k \<notin> set (body_keys (fst (express L dbfail salt now r req db)))
      \<and> k \<notin> set (body_keys (get_api_products L dbfail db req))
      \<and> k \<notin> set (body_keys (fst (post_api_products dbfail db req)))
      \<and> k \<notin> set (body_keys (get_api_users dbfail db req))
      \<and> k \<notin> set (body_keys (fst (put_api_users L dbfail db req)))
      \<and> k \<notin> set (body_keys (fst (flask F fault salt now r' request pdb))))
   \<and> my_stored (snd (put_api_users L dbfail db req)) = my_stored db
   \<and> ((\<forall>p\<in>set (my_stored db). fst p < my_users_auto db) \<longrightarrow>
       fst (post_api_register L dbfail salt now db req) = Reply 201 b \<longrightarrow>
       body req ''password'' = Some pw \<longrightarrow> bcryptjs_hash L pw 10 salt = Some h \<longrightarrow> h \<noteq> pw \<longrightarrow>
         (my_users_auto db, h)
           \<in> set (my_stored (express_run L cs (snd (post_api_register L dbfail salt now db req))))
         \<and> (\<forall>h'. (my_users_auto db, h')
               \<in> set (my_stored (express_run L cs
                        (snd (post_api_register L dbfail salt now db req))))
               \<longrightarrow> h' = h \<and> h' \<noteq> pw))
   \<and> ((\<forall>p\<in>set (stored pdb). fst p < pg_users_seq pdb) \<longrightarrow>
       fst (signup F fault salt request pdb) = Reply 200 b' \<longrightarrow>
       json request ''password'' = Some pw' \<longrightarrow> passlib_hash F pw' salt \<noteq> pw' \<longrightarrow>
         (pg_users_seq pdb, passlib_hash F pw' salt)
           \<in> set (stored (flask_run F cs' (snd (signup F fault salt request pdb))))
         \<and> (\<forall>h'. (pg_users_seq pdb, h')
               \<in> set (stored (flask_run F cs' (snd (signup F fault salt request pdb))))
               \<longrightarrow> h' = passlib_hash F pw' salt \<and> h' \<noteq> pw'))"
proof (intro conjI impI allI)
  assume k: "k \<in> {''password'', ''password_hash''}"
  show "k \<notin> set (body_keys (fst (express L dbfail salt now r req db)))"
    using express_public(1) secret_fields [OF k] by blast
  show "k \<notin> set (body_keys (get_api_products L dbfail db req))"
    using express_public(2) secret_fields [OF k] by blast
  show "k \<notin> set (body_keys (fst (post_api_products dbfail db req)))"
    using express_public(3) secret_fields [OF k] by blast
  show "k \<notin> set (body_keys (get_api_users dbfail db req))"
    using express_public(4) secret_fields [OF k] by blast
  show "k \<notin> set (body_keys (fst (put_api_users L dbfail db req)))"
    using express_public(5) secret_fields [OF k] by blast
  show "k \<notin> set (body_keys (fst (flask F fault salt now r' request pdb)))"
    using flask_keys secret_fields [OF k] by blast
next
  show "my_stored (snd (put_api_users L dbfail db req)) = my_stored db"
    by (rule express_handlers_stored)
next
  assume a: "\<forall>p\<in>set (my_stored db). fst p < my_users_auto db"
    "fst (post_api_register L dbfail salt now db req) = Reply 201 b"
    "body req ''password'' = Some pw" "bcryptjs_hash L pw 10 salt = Some h"
  show "(my_users_auto db, h)
           \<in> set (my_stored (express_run L cs (snd (post_api_register L dbfail salt now db req))))"
    by (rule express_password_kept(1) [OF a])
  fix h'
  assume "h \<noteq> pw"
    "(my_users_auto db, h')
       \<in> set (my_stored (express_run L cs (snd (post_api_register L dbfail salt now db req))))"
  then show "h' = h" "h' \<noteq> pw"
    using express_password_kept(2) [OF a, of h' cs] by auto
next
  assume a: "\<forall>p\<in>set (stored pdb). fst p < pg_users_seq pdb"
    "fst (signup F fault salt request pdb) = Reply 200 b'"
    "json request ''password'' = Some pw'"
  show "(pg_users_seq pdb, passlib_hash F pw' salt)
           \<in> set (stored (flask_run F cs' (snd (signup F fault salt request pdb))))"
    by (rule flask_password_kept(1) [OF a])
  fix h'
  assume "passlib_hash F pw' salt \<noteq> pw'"
    "(pg_users_seq pdb, h')
       \<in> set (stored (flask_run F cs' (snd (signup F fault salt request pdb))))"
  then show "h' = passlib_hash F pw' salt" "h' \<noteq> pw'"
    using flask_password_kept(2) [OF a, of h' cs'] by auto
qed



lemma password_column_and_field_names_example:
  "''password'' \<notin> set (body_keys (fst (flask ref_flask_lib None 0 0 Me (bearer_request ''ana'')
       ref_pg_db)))
   \<and> (2, ''$2a$secret3'') \<in> set (my_stored (express_run ref_express_lib
         [(False, 0, 1, PostLogin, empty_request\<lparr>body := carol\<rparr>)]
         (snd (post_api_register ref_express_lib False 0 0 ref_my_db
            (empty_request\<lparr>body := carol\<rparr>)))))
   \<and> (3, ''$2b$secret3'') \<in> set (stored (flask_run ref_flask_lib
         [(None, 0, 1, UpdateMe, bearer_request ''ana''\<lparr>json := carol\<rparr>)]
         (snd (signup ref_flask_lib None 0 (anonymous_request\<lparr>json := carol\<rparr>) ref_pg_db))))"
  using password_column_and_field_names [where k = "''password''" and L = ref_express_lib
      and dbfail = False and salt = 0 and now = 0 and r = PostLogin
      and req = "empty_request\<lparr>body := carol\<rparr>" and db = ref_my_db
      and F = ref_flask_lib and fault = None and r' = Me and request = "bearer_request ''ana''"
      and pdb = ref_pg_db and b = "message_body ''Registration successful!''"
      and pw = "''secret3''" and h = "''$2a$secret3''"
      and cs = "[(False, 0, 1, PostLogin, empty_request\<lparr>body := carol\<rparr>)]"
      and b' = "JObj []" and pw' = "[]" and cs' = "[]"]
    password_column_and_field_names [where k = "''password''" and L = ref_express_lib
      and dbfail = False and salt = 0 and now = 0 and r = PostLogin
      and req = "empty_request" and db = ref_my_db
      and F = ref_flask_lib and fault = None and r' = Me
      and request = "anonymous_request\<lparr>json := carol\<rparr>"
      and pdb = ref_pg_db and b = "JObj []"
      and pw = "[]" and h = "[]" and cs = "[]"
      and b' = "JObj [(''message'', JStr ''User created''), (''id'', JNum 3)]"
      and pw' = "''secret3''"
      and cs' = "[(None, 0, 1, UpdateMe, bearer_request ''ana''\<lparr>json := carol\<rparr>)]"]
  by (simp add: ref_signups)

text \<open>
  Whatever the library: a Flask signup with email and password and no username, when the
  statement is reached, replies 400 with the text of a not-null violation whose failing
  row holds the hash of the password.
\<close>

lemma signup_without_username:
  assumes "truthy (json request ''email'') = Some email"
      and "truthy (json request ''password'') = Some password"
      and "json request ''username'' = None"
      and "fault \<noteq> Some 0"
  shows "fst (signup L fault salt request db)
           = Reply 400 (error_body (str_error L (NotNullViolation ''username''
               [toString (pg_users_seq db), email, ''null'', passlib_hash L password salt])))"
  using assms by (simp add: signup_def with_conn_def Let_def)

text \<open>
  C6 fails on the Flask signup. A signup with email and password and no username sends
  NULL for the username, the column refuses it, and the view puts \<^verbatim>\<open>str(e)\<close> of
  the error under \<^verbatim>\<open>error\<close> in its 400 reply (line 302). The error names the failing row,
  so the reply carries the hash that was just computed from the password. Here on the
  reference datastore, with the error text of the reference library.
\<close>

theorem signup_error_text_carries_hash:
  "fst (signup ref_flask_lib None 0
         (anonymous_request\<lparr>json := [''email'' \<mapsto> ''c@x.com'', ''password'' \<mapsto> ''secret3'']\<rparr>)
         ref_pg_db)
     = Reply 400 (error_body
         (''null value in column username violates not-null constraint DETAIL: '' @
          ''Failing row contains (3, c@x.com, null, '' @
          passlib_hash ref_flask_lib ''secret3'' 0 @ '').''))
   \<and> passlib_hash ref_flask_lib ''secret3'' 0 = ''$2b$secret3''"
  by (simp add: signup_def with_conn_def failed_def rollback_def truthy_def
      anonymous_request_def ref_pg_db_def ref_flask_lib_def pg_ana_def pg_bob_def
      toString.simps digit_def)

end
